theory Spec2Isabelle
  imports Complex_Main "HOL-Library.Monad_Syntax"
begin

section \<open>JavaScript values\<close>

text \<open>
  The stock-metrics path of \<^verbatim>\<open>src/index.js\<close> (\<^verbatim>\<open>getStockMetrics\<close>, lines 144-217, and the
  two routes that call it, lines 221-261) works on the text a generative model replies with,
  on the value \<^verbatim>\<open>JSON.parse\<close> makes of it, and on JavaScript numbers.

  Scope of the embedding. Text is a HOL \<open>string\<close>; a character stands for one code unit
  below 256, and the replies and symbols considered are ASCII (code units above 255, which
  an ASCII reply can only name through an escape, are not told apart, and upper case is
  that of the ASCII letters). JavaScript numbers are the reals extended by \<open>NaN\<close> and the
  two infinities: rounding to IEEE doubles, underflow, overflow and the sign of zero are
  not modelled. \<open>None\<close> of type \<open>json option\<close> is JavaScript's \<^verbatim>\<open>undefined\<close>.
\<close>

datatype number = Finite real | NaN | PosInfinity | NegInfinity

datatype json =
    JNull
  | JBool bool
  | JNum number
  | JStr string
  | JArr "json list"
  | JObj "(string \<times> json) list"

text \<open>Reading a property \<^verbatim>\<open>v.k\<close>, for the property names this program reads (none of them
  is defined on an array or on \<^verbatim>\<open>Object.prototype\<close>). Of a key written twice in the
  JSON text the last one counts.\<close>

fun get_prop :: "json \<Rightarrow> string \<Rightarrow> json option" where
  "get_prop (JObj kvs) k = map_of (rev kvs) k"
| "get_prop v k = None"

text \<open>Truthiness (\<^verbatim>\<open>ToBoolean\<close>): \<^verbatim>\<open>undefined\<close>, \<^verbatim>\<open>null\<close>, \<^verbatim>\<open>false\<close>, \<^verbatim>\<open>0\<close>, \<^verbatim>\<open>NaN\<close> and
  the empty string are falsy, everything else is truthy, every array and object too.\<close>

fun truthy :: "json option \<Rightarrow> bool" where
  "truthy None = False"
| "truthy (Some JNull) = False"
| "truthy (Some (JBool b)) = b"
| "truthy (Some (JNum n)) = (n \<noteq> Finite 0 \<and> n \<noteq> NaN)"
| "truthy (Some (JStr s)) = (s \<noteq> [])"
| "truthy (Some (JArr xs)) = True"
| "truthy (Some (JObj kvs)) = True"

fun typeof :: "json \<Rightarrow> string" where
  "typeof JNull = ''object''"
| "typeof (JBool b) = ''boolean''"
| "typeof (JNum n) = ''number''"
| "typeof (JStr s) = ''string''"
| "typeof (JArr xs) = ''object''"
| "typeof (JObj kvs) = ''object''"

text \<open>\<^verbatim>\<open>a || b\<close>\<close>

definition or_else :: "json option \<Rightarrow> json option \<Rightarrow> json option" where
  "or_else a b = (if truthy a then a else b)"

subsection \<open>Strings\<close>

text \<open>The white space that \<^verbatim>\<open>trim\<close> and \<^verbatim>\<open>Number\<close> strip, among the code units below 256:
  tab, line feed, vertical tab, form feed, carriage return, space, no-break space.\<close>

definition is_white_space :: "char \<Rightarrow> bool" where
  "is_white_space c \<longleftrightarrow>
     c \<in> set [CHR 0x09, CHR 0x0A, CHR 0x0B, CHR 0x0C, CHR 0x0D, CHR 0x20, CHR 0xA0]"

definition trim :: "string \<Rightarrow> string" where
  "trim s = rev (dropWhile is_white_space (rev (dropWhile is_white_space s)))"



definition is_digit :: "char \<Rightarrow> bool" where
  "is_digit c \<longleftrightarrow> c \<in> set ''0123456789''"

definition digit_val :: "char \<Rightarrow> nat" where
  "digit_val c =
     (if c \<in> set ''0123456789'' then of_char c - 48
      else if c \<in> set ''abcdef'' then of_char c - 87
      else of_char c - 55)"

definition radix_val :: "nat \<Rightarrow> string \<Rightarrow> nat" where
  "radix_val b ds = foldl (\<lambda>a c. b * a + digit_val c) 0 ds"

definition scale10 :: "real \<Rightarrow> int \<Rightarrow> real" where
  "scale10 m k = (if 0 \<le> k then m * 10 ^ nat k else m / 10 ^ nat (- k))"

subsection \<open>\<^verbatim>\<open>Number(v)\<close>\<close>

text \<open>The numeric value of a string (\<^verbatim>\<open>StringToNumber\<close>): white space around it is dropped,
  the empty string is 0, a decimal literal with an optional sign, \<^verbatim>\<open>Infinity\<close> with an
  optional sign and an unsigned binary, octal or hexadecimal integer literal have their
  value, and every other string is \<^verbatim>\<open>NaN\<close>.\<close>

definition all_digits :: "string \<Rightarrow> int option" where
  "all_digits ds =
     (if ds \<noteq> [] \<and> list_all is_digit ds then Some (int (radix_val 10 ds)) else None)"

definition exponent_part :: "string \<Rightarrow> int option" where
  "exponent_part s =
     (case s of
        [] \<Rightarrow> Some 0
      | c # r \<Rightarrow>
          if c = CHR ''e'' \<or> c = CHR ''E'' then
            (case r of
               [] \<Rightarrow> None
             | d # ds \<Rightarrow>
                 if d = CHR ''-'' then map_option uminus (all_digits ds)
                 else if d = CHR ''+'' then all_digits ds
                 else all_digits r)
          else None)"

definition unsigned_decimal :: "string \<Rightarrow> real option" where
  "unsigned_decimal s =
     (let ip = takeWhile is_digit s;
          r1 = dropWhile is_digit s;
          dot = (r1 \<noteq> [] \<and> hd r1 = CHR ''.'');
          fp = (if dot then takeWhile is_digit (tl r1) else []);
          r2 = (if dot then dropWhile is_digit (tl r1) else r1)
      in if ip = [] \<and> fp = [] then None
         else map_option
                (\<lambda>ex. scale10 (real (radix_val 10 (ip @ fp))) (ex - int (length fp)))
                (exponent_part r2))"

definition radix_literal :: "string \<Rightarrow> real option" where
  "radix_literal s =
     (case s of
        z # x # ds \<Rightarrow>
          if z = CHR ''0'' \<and> ds \<noteq> [] then
            (if x \<in> set ''xX'' \<and> list_all (\<lambda>c. c \<in> set ''0123456789abcdefABCDEF'') ds
               then Some (real (radix_val 16 ds))
             else if x \<in> set ''oO'' \<and> list_all (\<lambda>c. c \<in> set ''01234567'') ds
               then Some (real (radix_val 8 ds))
             else if x \<in> set ''bB'' \<and> list_all (\<lambda>c. c \<in> set ''01'') ds
               then Some (real (radix_val 2 ds))
             else None)
          else None
      | _ \<Rightarrow> None)"

definition str_numeric_literal :: "string \<Rightarrow> number option" where
  "str_numeric_literal s =
     (let neg = (s \<noteq> [] \<and> hd s = CHR ''-'');
          u = (if s \<noteq> [] \<and> (hd s = CHR ''-'' \<or> hd s = CHR ''+'') then tl s else s)
      in if u = ''Infinity'' then Some (if neg then NegInfinity else PosInfinity)
         else (case unsigned_decimal u of
                 Some m \<Rightarrow> Some (Finite (if neg then - m else m))
               | None \<Rightarrow> map_option Finite (radix_literal s)))"

definition StringToNumber :: "string \<Rightarrow> number" where
  "StringToNumber s =
     (let t = trim s
      in if t = [] then Finite 0
         else (case str_numeric_literal t of Some n \<Rightarrow> n | None \<Rightarrow> NaN))"

text \<open>\<^verbatim>\<open>Number(v)\<close> converts an object to a primitive first (\<^verbatim>\<open>ToPrimitive\<close>, then
  \<^verbatim>\<open>OrdinaryToPrimitive\<close>): it calls the object's \<^verbatim>\<open>valueOf\<close> and \<^verbatim>\<open>toString\<close>, those that
  are functions, and takes the first result that is not an object. A value made by
  \<^verbatim>\<open>JSON.parse\<close> inherits both from its prototype: \<^verbatim>\<open>valueOf\<close> gives the object back,
  \<^verbatim>\<open>toString\<close> gives a string. But when the JSON text gave the object a key \<^verbatim>\<open>toString\<close>
  of its own, that property hides the inherited function and is never a function itself:
  no primitive is found and the conversion raises a \<^verbatim>\<open>TypeError\<close>. An array is converted
  through \<^verbatim>\<open>join\<close>, which converts every element but \<^verbatim>\<open>null\<close> to a string.\<close>

fun toString_throws :: "json \<Rightarrow> bool" where
  "toString_throws (JObj kvs) = (''toString'' \<in> set (map fst kvs))"
| "toString_throws (JArr xs) = list_ex toString_throws xs"
| "toString_throws v = False"

text \<open>\<^verbatim>\<open>Number(v)\<close>; \<open>None\<close> is the \<^verbatim>\<open>TypeError\<close>. An object without its own \<^verbatim>\<open>toString\<close>
  becomes the string \<^verbatim>\<open>[object Object]\<close> and so \<^verbatim>\<open>NaN\<close>. An array of one element has that
  element's string; an array of two or more elements has a string with a comma in it,
  which is no numeric literal.\<close>

fun Number :: "json option \<Rightarrow> number option" where
  "Number None = Some NaN"
| "Number (Some JNull) = Some (Finite 0)"
| "Number (Some (JBool b)) = Some (Finite (if b then 1 else 0))"
| "Number (Some (JNum n)) = Some n"
| "Number (Some (JStr s)) = Some (StringToNumber s)"
| "Number (Some (JObj kvs)) = (if toString_throws (JObj kvs) then None else Some NaN)"
| "Number (Some (JArr [])) = Some (Finite 0)"
| "Number (Some (JArr [x])) = (case x of JBool b \<Rightarrow> Some NaN | _ \<Rightarrow> Number (Some x))"
| "Number (Some (JArr (x # y # zs))) =
     (if toString_throws (JArr (x # y # zs)) then None else Some NaN)"

subsection \<open>\<^verbatim>\<open>JSON.parse\<close>\<close>

text \<open>A recursive-descent parser of the JSON grammar. Each function returns the value
  read and the rest of the text. The first argument of the three mutually recursive
  functions bounds the nesting and the number of elements read; \<open>JSON_parse\<close> starts them
  with more than the text can use (lemma \<open>JSON_parse_fuel\<close> below).\<close>

definition is_json_ws :: "char \<Rightarrow> bool" where
  "is_json_ws c \<longleftrightarrow> c \<in> set [CHR 0x20, CHR 0x09, CHR 0x0A, CHR 0x0D]"

definition skip_ws :: "string \<Rightarrow> string" where
  "skip_ws s = dropWhile is_json_ws s"

definition unescape :: "char \<Rightarrow> char option" where
  "unescape e =
     (if e = CHR 0x22 then Some (CHR 0x22)
      else if e = CHR 0x5C then Some (CHR 0x5C)
      else if e = CHR ''/'' then Some (CHR ''/'')
      else if e = CHR ''b'' then Some (CHR 0x08)
      else if e = CHR ''f'' then Some (CHR 0x0C)
      else if e = CHR ''n'' then Some (CHR 0x0A)
      else if e = CHR ''r'' then Some (CHR 0x0D)
      else if e = CHR ''t'' then Some (CHR 0x09)
      else None)"

definition is_hex :: "char \<Rightarrow> bool" where
  "is_hex c \<longleftrightarrow> c \<in> set ''0123456789abcdefABCDEF''"

text \<open>The characters of a string literal after its opening quote. An escape
  \<^verbatim>\<open>\uXXXX\<close> is read as the character of that code when the code is below 256, and as
  the character \<open>0xFF\<close> otherwise: a string with such an escape in it stays different
  from every ASCII string, and so from every property name the program reads.\<close>

fun json_chars :: "string \<Rightarrow> (string \<times> string) option" where
  "json_chars [] = None"
| "json_chars (c # cs) =
     (if c = CHR 0x22 then Some ([], cs)
      else if c = CHR 0x5C then
        (case cs of
           [] \<Rightarrow> None
         | e # r \<Rightarrow>
             if e = CHR ''u'' then
               (case r of
                  h1 # h2 # h3 # h4 # r' \<Rightarrow>
                    if list_all is_hex [h1, h2, h3, h4]
                    then map_option
                           (apfst ((#) (if radix_val 16 [h1, h2, h3, h4] < 256
                                        then char_of (radix_val 16 [h1, h2, h3, h4])
                                        else CHR 0xFF)))
                           (json_chars r')
                    else None
                | _ \<Rightarrow> None)
             else
               (case unescape e of
                  None \<Rightarrow> None
                | Some ch \<Rightarrow> map_option (apfst ((#) ch)) (json_chars r)))
      else if (of_char c :: nat) < 0x20 then None
      else map_option (apfst ((#) c)) (json_chars cs))"

definition json_fraction :: "string \<Rightarrow> (string \<times> string) option" where
  "json_fraction s =
     (if s \<noteq> [] \<and> hd s = CHR ''.'' then
        (if takeWhile is_digit (tl s) = [] then None
         else Some (takeWhile is_digit (tl s), dropWhile is_digit (tl s)))
      else Some ([], s))"

definition json_exponent :: "string \<Rightarrow> (int \<times> string) option" where
  "json_exponent s =
     (if s \<noteq> [] \<and> (hd s = CHR ''e'' \<or> hd s = CHR ''E'') then
        (let neg = (tl s \<noteq> [] \<and> hd (tl s) = CHR ''-'');
             r = (if tl s \<noteq> [] \<and> (hd (tl s) = CHR ''-'' \<or> hd (tl s) = CHR ''+'')
                  then tl (tl s) else tl s);
             ds = takeWhile is_digit r
         in if ds = [] then None
            else Some (if neg then - int (radix_val 10 ds) else int (radix_val 10 ds),
                       dropWhile is_digit r))
      else Some (0, s))"

definition json_number :: "string \<Rightarrow> (real \<times> string) option" where
  "json_number s =
     (let neg = (s \<noteq> [] \<and> hd s = CHR ''-'');
          s1 = (if neg then tl s else s);
          ip = takeWhile is_digit s1
      in if ip = [] \<or> (1 < length ip \<and> hd ip = CHR ''0'') then None
         else do {
           (fp, s2) \<leftarrow> json_fraction (dropWhile is_digit s1);
           (ex, s3) \<leftarrow> json_exponent s2;
           let m = scale10 (real (radix_val 10 (ip @ fp))) (ex - int (length fp));
           Some (if neg then - m else m, s3)
         })"

fun json_value :: "nat \<Rightarrow> string \<Rightarrow> (json \<times> string) option"
  and json_elements :: "nat \<Rightarrow> string \<Rightarrow> (json list \<times> string) option"
  and json_members :: "nat \<Rightarrow> string \<Rightarrow> ((string \<times> json) list \<times> string) option"
where
  "json_value 0 s = None"
| "json_value (Suc n) s =
     (case skip_ws s of
        [] \<Rightarrow> None
      | c # r \<Rightarrow>
          if c = CHR ''{'' then
            (if skip_ws r \<noteq> [] \<and> hd (skip_ws r) = CHR ''}''
             then Some (JObj [], tl (skip_ws r))
             else map_option (apfst JObj) (json_members n r))
          else if c = CHR ''['' then
            (if skip_ws r \<noteq> [] \<and> hd (skip_ws r) = CHR '']''
             then Some (JArr [], tl (skip_ws r))
             else map_option (apfst JArr) (json_elements n r))
          else if c = CHR 0x22 then map_option (apfst JStr) (json_chars r)
          else if take 4 (c # r) = ''true'' then Some (JBool True, drop 4 (c # r))
          else if take 5 (c # r) = ''false'' then Some (JBool False, drop 5 (c # r))
          else if take 4 (c # r) = ''null'' then Some (JNull, drop 4 (c # r))
          else map_option (apfst (\<lambda>x. JNum (Finite x))) (json_number (c # r)))"
| "json_elements 0 s = None"
| "json_elements (Suc n) s =
     (case json_value n s of
        None \<Rightarrow> None
      | Some (v, r) \<Rightarrow>
          (case skip_ws r of
             [] \<Rightarrow> None
           | c # r' \<Rightarrow>
               if c = CHR '','' then map_option (apfst ((#) v)) (json_elements n r')
               else if c = CHR '']'' then Some ([v], r')
               else None))"
| "json_members 0 s = None"
| "json_members (Suc n) s =
     (case skip_ws s of
        [] \<Rightarrow> None
      | q # r \<Rightarrow>
          if q = CHR 0x22 then
            (case json_chars r of
               None \<Rightarrow> None
             | Some (k, r1) \<Rightarrow>
                 (case skip_ws r1 of
                    [] \<Rightarrow> None
                  | c # r2 \<Rightarrow>
                      if c = CHR '':'' then
                        (case json_value n r2 of
                           None \<Rightarrow> None
                         | Some (v, r3) \<Rightarrow>
                             (case skip_ws r3 of
                                [] \<Rightarrow> None
                              | d # r4 \<Rightarrow>
                                  if d = CHR '','' then
                                    map_option (apfst ((#) (k, v))) (json_members n r4)
                                  else if d = CHR ''}'' then Some ([(k, v)], r4)
                                  else None))
                      else None))
          else None)"

text \<open>\<^verbatim>\<open>JSON.parse(text)\<close>; \<open>None\<close> is the \<^verbatim>\<open>SyntaxError\<close>.\<close>

definition JSON_parse :: "string \<Rightarrow> json option" where
  "JSON_parse text =
     (case json_value (2 * length text + 2) text of
        None \<Rightarrow> None
      | Some (v, r) \<Rightarrow> if skip_ws r = [] then Some v else None)"

section \<open>The stock-metrics path of \<^verbatim>\<open>src/index.js\<close>\<close>

subsection \<open>Data\<close>

text \<open>The object \<^verbatim>\<open>normalized\<close> of lines 197-208. \<^verbatim>\<open>stockName\<close> and \<^verbatim>\<open>symbol\<close> are
  whatever value the \<^verbatim>\<open>||\<close> chain yields; the eight metrics are the result of \<^verbatim>\<open>Number\<close>
  or of arithmetic on \<^verbatim>\<open>Math.random()\<close>, so they are numbers.\<close>

record stock_metrics =
  stockName :: "json option"
  symbol :: "json option"
  currentPrice :: number
  dayHigh :: number
  dayLow :: number
  peRatio :: number
  roe :: number
  debtToEquity :: number
  profitMargins :: number
  revenueGrowth :: number

text \<open>A value of \<^verbatim>\<open>stockCache\<close> (line 211): \<^verbatim>\<open>{ data, timestamp }\<close>.\<close>

record cache_entry =
  data :: stock_metrics
  timestamp :: int

text \<open>The prompts sent to \<^verbatim>\<open>model.generateContent\<close>, by what is interpolated into them:
  the symbol (lines 155-159), or the metrics and the symbol (lines 238-251).\<close>

datatype prompt = MetricsPrompt string | AnalysisPrompt stock_metrics string

text \<open>The state the path reads and writes: the module-level \<^verbatim>\<open>stockCache\<close> (line 144), and
  the calls made to the external model so far.\<close>

record world =
  stockCache :: "string \<rightharpoonup> cache_entry"
  calls :: "prompt list"

text \<open>What \<^verbatim>\<open>await model.generateContent(prompt)\<close> followed by
  \<^verbatim>\<open>result?.response?.text?.()\<close> comes to: an exception, nothing, or a text.\<close>

datatype generated = Rejected | NoText | Text string

text \<open>What one call of \<^verbatim>\<open>getStockMetrics\<close> gets from outside: the clock read at line 150,
  the model's answer, the successive results of \<^verbatim>\<open>Math.random()\<close>, the clock read at
  line 211.\<close>

record env =
  now_lookup :: int
  reply :: generated
  random :: "nat \<Rightarrow> real"
  now_store :: int

definition CACHE_TTL :: int where
  "CACHE_TTL = 5 * 60 * 1000"

subsection \<open>\<^verbatim>\<open>getStockMetrics\<close>\<close>

text \<open>Lines 149-152: the entry is returned when
  \<^verbatim>\<open>cached && Date.now() - cached.timestamp < CACHE_TTL\<close>. The clock is read at most once.\<close>

definition lookup :: "world \<Rightarrow> string \<Rightarrow> int \<Rightarrow> stock_metrics option" where
  "lookup w stockSymbol now =
     (case stockCache w stockSymbol of
        None \<Rightarrow> None
      | Some cached \<Rightarrow> if now - timestamp cached < CACHE_TTL then Some (data cached) else None)"

text \<open>Line 175: \<^verbatim>\<open>text.match(/\{[\s\S]*\}/)\<close>. The star is greedy and \<^verbatim>\<open>[\s\S]\<close> is any
  character, so the match starts at the first \<^verbatim>\<open>{\<close> and ends at the last \<^verbatim>\<open>}\<close> after it;
  there is none when no \<^verbatim>\<open>}\<close> follows the first \<^verbatim>\<open>{\<close>.\<close>

definition jsonMatch :: "string \<Rightarrow> string option" where
  "jsonMatch text =
     (let from_brace = dropWhile (\<lambda>c. c \<noteq> CHR ''{'') text
      in if from_brace \<noteq> [] \<and> CHR ''}'' \<in> set (tl from_brace)
         then Some (rev (dropWhile (\<lambda>c. c \<noteq> CHR ''}'') (rev from_brace)))
         else None)"

text \<open>Lines 173-183, inside the inner \<^verbatim>\<open>try\<close>: \<open>None\<close> is the exception of \<^verbatim>\<open>JSON.parse\<close>.\<close>

definition parse_reply :: "string \<Rightarrow> json option" where
  "parse_reply text =
     (case jsonMatch text of
        Some jsonStr \<Rightarrow> JSON_parse jsonStr
      | None \<Rightarrow> JSON_parse text)"

text \<open>One line of 200-207: \<^verbatim>\<open>parsed.f ? Number(parsed.f) : Math.random() * scale + offset\<close>.
  \<open>k\<close> counts the results of \<^verbatim>\<open>Math.random()\<close> used so far; \<open>None\<close> is the \<^verbatim>\<open>TypeError\<close> of
  \<^verbatim>\<open>Number\<close>.\<close>

definition metric ::
  "json option \<Rightarrow> real \<Rightarrow> real \<Rightarrow> (nat \<Rightarrow> real) \<Rightarrow> nat \<Rightarrow> (number \<times> nat) option" where
  "metric v scale offset rnd k =
     (if truthy v then map_option (\<lambda>n. (n, k)) (Number v)
      else Some (Finite (rnd k * scale + offset), Suc k))"

text \<open>Lines 197-208.\<close>

definition normalize :: "json \<Rightarrow> string \<Rightarrow> (nat \<Rightarrow> real) \<Rightarrow> stock_metrics option" where
  "normalize parsed stockSymbol rnd =
     do {
       (cp, k1) \<leftarrow> metric (get_prop parsed ''currentPrice'') 100 50 rnd 0;
       (dh, k2) \<leftarrow> metric (get_prop parsed ''dayHigh'') 100 60 rnd k1;
       (dl, k3) \<leftarrow> metric (get_prop parsed ''dayLow'') 100 40 rnd k2;
       (pe, k4) \<leftarrow> metric (get_prop parsed ''peRatio'') 30 10 rnd k3;
       (ro, k5) \<leftarrow> metric (get_prop parsed ''roe'') 0.5 0.1 rnd k4;
       (de, k6) \<leftarrow> metric (get_prop parsed ''debtToEquity'') 1 0.2 rnd k5;
       (pm, k7) \<leftarrow> metric (get_prop parsed ''profitMargins'') 0.5 0.1 rnd k6;
       (rg, k8) \<leftarrow> metric (get_prop parsed ''revenueGrowth'') 0.3 0.05 rnd k7;
       Some \<lparr> stockName =
                or_else (get_prop parsed ''stockName'')
                  (or_else (get_prop parsed ''name'') (Some (JStr stockSymbol))),
              symbol = or_else (get_prop parsed ''symbol'') (Some (JStr stockSymbol)),
              currentPrice = cp, dayHigh = dh, dayLow = dl, peRatio = pe, roe = ro,
              debtToEquity = de, profitMargins = pm, revenueGrowth = rg \<rparr>
     }"

text \<open>The errors thrown inside the outer \<^verbatim>\<open>try\<close> (lines 154-212), by where they come from.\<close>

datatype failure =
    ModelCallFailed
  | EmptyResponse
  | InvalidJSON
  | NotAnObject
  | CoercionTypeError

text \<open>Line 163: \<^verbatim>\<open>result?.response?.text?.() ?? ""\<close>.\<close>

definition reply_text :: "generated \<Rightarrow> string" where
  "reply_text r = (case r of Text t \<Rightarrow> t | _ \<Rightarrow> [])"

text \<open>Lines 155-212, the body of the outer \<^verbatim>\<open>try\<close>. The call to the model is recorded
  first; the cache is written last, at line 211, and only there.\<close>

definition try_block :: "string \<Rightarrow> env \<Rightarrow> world \<Rightarrow> (failure + stock_metrics) \<times> world" where
  "try_block stockSymbol e w =
     (let w1 = w\<lparr>calls := calls w @ [MetricsPrompt stockSymbol]\<rparr>;
          text = reply_text (reply e)
      in if reply e = Rejected then (Inl ModelCallFailed, w1)
         else if text = [] \<or> length (trim text) = 0 then (Inl EmptyResponse, w1)
         else
           (case parse_reply text of
              None \<Rightarrow> (Inl InvalidJSON, w1)
            | Some parsed \<Rightarrow>
                if \<not> truthy (Some parsed) \<or> typeof parsed \<noteq> ''object''
                then (Inl NotAnObject, w1)
                else
                  (case normalize parsed stockSymbol (random e) of
                     None \<Rightarrow> (Inl CoercionTypeError, w1)
                   | Some normalized \<Rightarrow>
                       (Inr normalized,
                        w1\<lparr>stockCache := (stockCache w1)(stockSymbol \<mapsto>
                              \<lparr>data = normalized, timestamp = now_store e\<rparr>)\<rparr>))))"

text \<open>The \<^verbatim>\<open>Error\<close> the function throws (line 215), by its message.\<close>

datatype error = Error string

definition failed_message :: "string \<Rightarrow> string" where
  "failed_message stockSymbol =
     ''Failed to retrieve real-time data for '' @ stockSymbol
       @ ''. Please ensure the symbol is valid and try again.''"

text \<open>Lines 147-217. The result is what the promise settles to, and the state after.\<close>

definition getStockMetrics :: "string \<Rightarrow> env \<Rightarrow> world \<Rightarrow> (error + stock_metrics) \<times> world" where
  "getStockMetrics stockSymbol e w =
     (case lookup w stockSymbol (now_lookup e) of
        Some cached_data \<Rightarrow> (Inr cached_data, w)
      | None \<Rightarrow>
          (case try_block stockSymbol e w of
             (Inl f, w') \<Rightarrow> (Inl (Error (failed_message stockSymbol)), w')
           | (Inr normalized, w') \<Rightarrow> (Inr normalized, w')))"

subsection \<open>The routes\<close>






section \<open>Sample inputs\<close>

text \<open>A cached record, a state that holds it under \<^verbatim>\<open>ACME\<close> since time 0, and what one call
  gets from outside when the model replies \<open>t\<close>: the clock is at five minutes exactly when
  the cache is looked up.\<close>

definition sample_metrics :: stock_metrics where
  "sample_metrics =
     \<lparr>stockName = Some (JStr ''Acme''), symbol = Some (JStr ''ACME''),
      currentPrice = Finite 42, dayHigh = Finite 43, dayLow = Finite 41,
      peRatio = Finite 20, roe = Finite 0.2, debtToEquity = Finite 0.5,
      profitMargins = Finite 0.3, revenueGrowth = Finite 0.1\<rparr>"

definition sample_world :: world where
  "sample_world =
     \<lparr>stockCache = [''ACME'' \<mapsto> \<lparr>data = sample_metrics, timestamp = 0\<rparr>], calls = []\<rparr>"

definition sample_env :: "string \<Rightarrow> env" where
  "sample_env t =
     \<lparr>now_lookup = 300000, reply = Text t, random = (\<lambda>k. 1 / 2), now_store = 300010\<rparr>"

text \<open>The reply of the specification's round-trip scenario.\<close>

definition acme_reply :: string where
  \<open>acme_reply = ''Sure! {"stockName":"Acme","symbol":"ACME","currentPrice":42}''\<close>

text \<open>What a later call gets from outside when the model is out of reach at time \<open>t\<close>.\<close>

definition later_env :: "int \<Rightarrow> env" where
  "later_env t = \<lparr>now_lookup = t, reply = Rejected, random = (\<lambda>k. 0), now_store = t\<rparr>"

section \<open>The documented ranges\<close>

text \<open>The eight numeric fields in the order of lines 200-207, each with the range the
  specification documents for its placeholder.\<close>

definition documented_ranges :: "(string \<times> (stock_metrics \<Rightarrow> number) \<times> real \<times> real) list" where
  "documented_ranges =
     [(''currentPrice'', currentPrice, 50, 150),
      (''dayHigh'', dayHigh, 60, 160),
      (''dayLow'', dayLow, 40, 140),
      (''peRatio'', peRatio, 10, 40),
      (''roe'', roe, 0.1, 0.6),
      (''debtToEquity'', debtToEquity, 0.2, 1.2),
      (''profitMargins'', profitMargins, 0.1, 0.6),
      (''revenueGrowth'', revenueGrowth, 0.05, 0.35)]"

definition in_range :: "real \<Rightarrow> real \<Rightarrow> number \<Rightarrow> bool" where
  "in_range lo hi x = (case x of Finite y \<Rightarrow> lo \<le> y \<and> y \<le> hi | _ \<Rightarrow> False)"

text \<open>How many of the fields before \<open>name\<close> are falsy in \<open>parsed\<close>: each of them has used
  one result of \<^verbatim>\<open>Math.random()\<close>.\<close>

definition placeholders_before :: "json \<Rightarrow> string \<Rightarrow> nat" where
  "placeholders_before parsed name =
     length (filter (\<lambda>n. \<not> truthy (get_prop parsed n))
       (takeWhile (\<lambda>n. n \<noteq> name) (map fst documented_ranges)))"

text \<open>Whether \<^verbatim>\<open>Number\<close> raises its \<^verbatim>\<open>TypeError\<close> on one of the truthy numeric fields of
  \<open>parsed\<close>.\<close>

definition coercion_throws :: "json \<Rightarrow> bool" where
  "coercion_throws parsed =
     list_ex (\<lambda>name. truthy (get_prop parsed name) \<and> Number (get_prop parsed name) = None)
       (map fst documented_ranges)"

section \<open>The specification's reading of the parsing step\<close>

text \<open>The words of the specification for lines 173-183: extract the first top-level
  \<^verbatim>\<open>{...}\<close> span from the reply and parse it; fall back to parsing the entire reply. They
  are written down here as they stand, to be compared with \<open>jsonMatch\<close> and \<open>parse_reply\<close>
  above, which follow the code. \<open>closing depth\<close> reads up to the brace that closes the span,
  \<open>depth\<close> inner braces being open.\<close>

fun closing :: "nat \<Rightarrow> string \<Rightarrow> string option" where
  "closing depth [] = None"
| "closing depth (c # cs) =
     (if c = CHR ''}'' then
        (case depth of 0 \<Rightarrow> Some [c] | Suc d \<Rightarrow> map_option ((#) c) (closing d cs))
      else if c = CHR ''{'' then map_option ((#) c) (closing (Suc depth) cs)
      else map_option ((#) c) (closing depth cs))"

definition spec_first_span :: "string \<Rightarrow> string option" where
  "spec_first_span text =
     (case dropWhile (\<lambda>c. c \<noteq> CHR ''{'') text of
        [] \<Rightarrow> None
      | c # cs \<Rightarrow> map_option ((#) c) (closing 0 cs))"

definition spec_parse_reply :: "string \<Rightarrow> json option" where
  "spec_parse_reply text =
     (case (case spec_first_span text of None \<Rightarrow> None | Some matched \<Rightarrow> JSON_parse matched) of
        Some v \<Rightarrow> Some v
      | None \<Rightarrow> JSON_parse text)"

section \<open>The returned record and the keys of the cache\<close>

text \<open>The values the returned record holds, as JavaScript values.\<close>

definition record_fields :: "stock_metrics \<Rightarrow> json option list" where
  "record_fields m =
     [stockName m, symbol m] @ map (\<lambda>(name, field, lo, hi). Some (JNum (field m))) documented_ranges"

text \<open>Neither \<^verbatim>\<open>null\<close> nor absent; a number or a string; a string; a finite number.\<close>

fun present :: "json option \<Rightarrow> bool" where
  "present None = False"
| "present (Some JNull) = False"
| "present (Some v) = True"

fun number_or_string :: "json option \<Rightarrow> bool" where
  "number_or_string (Some (JNum n)) = True"
| "number_or_string (Some (JStr s)) = True"
| "number_or_string v = False"

fun is_string :: "json option \<Rightarrow> bool" where
  "is_string (Some (JStr s)) = True"
| "is_string v = False"

fun is_finite :: "number \<Rightarrow> bool" where
  "is_finite (Finite y) = True"
| "is_finite x = False"

text \<open>No record in the cache has a field that is \<^verbatim>\<open>null\<close> or absent.\<close>

definition cache_present :: "world \<Rightarrow> bool" where
  "cache_present w \<longleftrightarrow>
     (\<forall>k c. stockCache w k = Some c \<longrightarrow> list_all present (record_fields (data c)))"


section \<open>Properties\<close>

subsection \<open>The parser\<close>

text \<open>Each parsing function returns a rest shorter than its input, and the bound that
  \<open>JSON_parse\<close> starts with is beyond what a text can use: every larger bound gives the
  same result.\<close>

lemma skip_ws_length: "length (skip_ws s) \<le> length s"
  by (simp add: skip_ws_def length_dropWhile_le)

lemma skip_ws_Cons: "skip_ws s = c # r \<Longrightarrow> length r < length s"
  using skip_ws_length [of s] by simp

lemma json_chars_shorter: "json_chars s = Some (x, r) \<Longrightarrow> length r < length s"
proof (induction s arbitrary: x r rule: json_chars.induct)
  case 1
  then show ?case by simp
next
  case (2 c cs)
  then show ?case
    by (auto split: if_splits list.splits option.splits) fastforce+
qed

lemma json_fraction_length: "json_fraction s = Some (fp, r) \<Longrightarrow> length r \<le> length s"
  by (cases s) (auto simp: json_fraction_def length_dropWhile_le le_SucI split: if_splits)

lemma json_exponent_length: "json_exponent s = Some (ex, r) \<Longrightarrow> length r \<le> length s"
proof (cases "s \<noteq> [] \<and> (hd s = CHR ''e'' \<or> hd s = CHR ''E'')")
  case False
  moreover assume "json_exponent s = Some (ex, r)"
  ultimately show ?thesis by (auto simp: json_exponent_def)
next
  case True
  define t where "t = (if tl s \<noteq> [] \<and> (hd (tl s) = CHR ''-'' \<or> hd (tl s) = CHR ''+'')
                  then tl (tl s) else tl s)"
  assume "json_exponent s = Some (ex, r)"
  with True have "r = dropWhile is_digit t"
    by (auto simp: json_exponent_def Let_def t_def split: if_splits)
  then have "length r \<le> length t" by (simp add: length_dropWhile_le)
  also have "length t \<le> length s" by (simp add: t_def)
  finally show ?thesis .
qed

lemma dropWhile_shorter: "takeWhile P xs \<noteq> [] \<Longrightarrow> length (dropWhile P xs) < length xs"
  by (cases xs) (auto simp: length_dropWhile_le le_imp_less_Suc split: if_splits)

lemma json_number_shorter:
  assumes "json_number s = Some (x, r)"
  shows "length r < length s"
proof -
  define s1 where "s1 = (if s \<noteq> [] \<and> hd s = CHR ''-'' then tl s else s)"
  from assms have ip: "takeWhile is_digit s1 \<noteq> []"
    by (auto simp: json_number_def Let_def s1_def split: if_splits)
  from assms obtain fp s2 ex where
    f: "json_fraction (dropWhile is_digit s1) = Some (fp, s2)" and
    e: "json_exponent s2 = Some (ex, r)"
    by (auto simp: json_number_def Let_def s1_def bind_eq_Some_conv split: if_splits)
  from json_exponent_length [OF e] json_fraction_length [OF f] dropWhile_shorter [OF ip]
  have "length r < length s1" by simp
  also have "length s1 \<le> length s" by (simp add: s1_def)
  finally show ?thesis .
qed


lemma json_shorter:
  "json_value n s = Some (v, r) \<longrightarrow> length r < length s"
  "json_elements n s = Some (vs, r) \<longrightarrow> length r < length s"
  "json_members n s = Some (kvs, r) \<longrightarrow> length r < length s"
proof (induction n s and n s and n s arbitrary: v r and vs r and kvs r
    rule: json_value_json_elements_json_members.induct)
  case (1 s)
  then show ?case by simp
next
  case (2 n s)
  show ?case
  proof
    assume a: "json_value (Suc n) s = Some (v, r)"
    then obtain c t where sk: "skip_ws s = c # t"
      by (cases "skip_ws s") auto
    note len = skip_ws_Cons [OF sk]
    consider (obj) "c = CHR ''{''" | (arr) "c \<noteq> CHR ''{''" "c = CHR ''[''"
      | (str) "c \<noteq> CHR ''{''" "c \<noteq> CHR ''[''" "c = CHR 0x22"
      | (other) "c \<noteq> CHR ''{''" "c \<noteq> CHR ''[''" "c \<noteq> CHR 0x22"
      by blast
    then show "length r < length s"
    proof cases
      case obj
      show ?thesis
      proof (cases "skip_ws t \<noteq> [] \<and> hd (skip_ws t) = CHR ''}''")
        case True
        with a sk obj have "r = tl (skip_ws t)" by simp
        with skip_ws_length [of t] len show ?thesis by simp
      next
        case False
        with a sk obj obtain kvs where "json_members n t = Some (kvs, r)"
          by auto
        with "2.IH"(1) [OF sk obj False] have "length r < length t" by blast
        with len show ?thesis by simp
      qed
    next
      case arr
      show ?thesis
      proof (cases "skip_ws t \<noteq> [] \<and> hd (skip_ws t) = CHR '']''")
        case True
        with a sk arr have "r = tl (skip_ws t)" by simp
        with skip_ws_length [of t] len show ?thesis by simp
      next
        case False
        with a sk arr obtain vs where "json_elements n t = Some (vs, r)"
          by auto
        with "2.IH"(2) [OF sk arr False] have "length r < length t" by blast
        with len show ?thesis by simp
      qed
    next
      case str
      with a sk obtain x where "json_chars t = Some (x, r)" by auto
      from json_chars_shorter [OF this] len show ?thesis by simp
    next
      case other
      have "length r \<le> length t"
      proof (cases "take 4 (c # t) = ''true'' \<or> take 5 (c # t) = ''false''
                    \<or> take 4 (c # t) = ''null''")
        case True
        with a sk other show ?thesis by (auto split: if_splits)
      next
        case False
        with a sk other obtain x where "json_number (c # t) = Some (x, r)" by auto
        from json_number_shorter [OF this] show ?thesis by simp
      qed
      with len show ?thesis by simp
    qed
  qed
next
  case (3 s)
  then show ?case by simp
next
  case (4 n s)
  show ?case
  proof
    assume a: "json_elements (Suc n) s = Some (vs, r)"
    then obtain v t where v: "json_value n s = Some (v, t)"
      by (cases "json_value n s") auto
    with a obtain c t' where sk: "skip_ws t = c # t'"
      by (cases "skip_ws t") auto
    from "4.IH"(1) v have l1: "length t < length s" by blast
    note l2 = skip_ws_Cons [OF sk]
    show "length r < length s"
    proof (cases "c = CHR '',''")
      case True
      with a v sk obtain ws where "json_elements n t' = Some (ws, r)" by auto
      with "4.IH"(2) [OF v refl sk True] have "length r < length t'" by blast
      with l1 l2 show ?thesis by simp
    next
      case False
      with a v sk have "r = t'" by (auto split: if_splits)
      with l1 l2 show ?thesis by simp
    qed
  qed
next
  case (5 s)
  then show ?case by simp
next
  case (6 n s)
  show ?case
  proof
    assume a: "json_members (Suc n) s = Some (kvs, r)"
    then obtain q t where sk: "skip_ws s = q # t"
      by (cases "skip_ws s") auto
    with a have q: "q = CHR 0x22" by (auto split: if_splits)
    with a sk obtain k t1 where k: "json_chars t = Some (k, t1)"
      by (cases "json_chars t") auto
    with a sk q obtain c t2 where sk1: "skip_ws t1 = c # t2"
      by (cases "skip_ws t1") auto
    with a sk q k have c: "c = CHR '':''" by (auto split: if_splits)
    with a sk q k sk1 obtain v t3 where v: "json_value n t2 = Some (v, t3)"
      by (cases "json_value n t2") auto
    with a sk q k sk1 c obtain d t4 where sk3: "skip_ws t3 = d # t4"
      by (cases "skip_ws t3") auto
    from "6.IH"(1) [OF sk q k refl sk1 c] v have l3: "length t3 < length t2" by blast
    note l = skip_ws_Cons [OF sk] json_chars_shorter [OF k] skip_ws_Cons [OF sk1] l3
      skip_ws_Cons [OF sk3]
    show "length r < length s"
    proof (cases "d = CHR '',''")
      case True
      with a sk q k sk1 c v sk3 obtain ws where "json_members n t4 = Some (ws, r)" by auto
      with "6.IH"(2) [OF sk q k refl sk1 c v refl sk3 True] have "length r < length t4" by blast
      with l show ?thesis by simp
    next
      case False
      with a sk q k sk1 c v sk3 have "r = t4" by (auto split: if_splits)
      with l show ?thesis by simp
    qed
  qed
qed


lemma json_fuel:
  "2 * length s + 1 \<le> n \<longrightarrow>
     (\<forall>m. 2 * length s + 1 \<le> m \<longrightarrow> json_value n s = json_value m s)"
  "2 * length s + 2 \<le> n \<longrightarrow>
     (\<forall>m. 2 * length s + 2 \<le> m \<longrightarrow> json_elements n s = json_elements m s)"
  "2 * length s + 1 \<le> n \<longrightarrow>
     (\<forall>m. 2 * length s + 1 \<le> m \<longrightarrow> json_members n s = json_members m s)"
proof (induction n s and n s and n s
    rule: json_value_json_elements_json_members.induct)
  case (1 s)
  then show ?case by simp
next
  case (2 n s)
  show ?case
  proof (intro impI allI)
    fix m
    assume n: "2 * length s + 1 \<le> Suc n" and "2 * length s + 1 \<le> m"
    then obtain m' where m: "m = Suc m'" and m': "2 * length s \<le> m'"
      by (cases m) auto
    show "json_value (Suc n) s = json_value m s"
    proof (cases "skip_ws s")
      case Nil
      then show ?thesis by (simp add: m)
    next
      case (Cons c t)
      note len = skip_ws_Cons [OF Cons]
      consider (obj) "c = CHR ''{''" "\<not> (skip_ws t \<noteq> [] \<and> hd (skip_ws t) = CHR ''}'')"
        | (arr) "c \<noteq> CHR ''{''" "c = CHR ''[''"
            "\<not> (skip_ws t \<noteq> [] \<and> hd (skip_ws t) = CHR '']'')"
        | (empty_obj) "c = CHR ''{''" "skip_ws t \<noteq> [] \<and> hd (skip_ws t) = CHR ''}''"
        | (empty_arr) "c \<noteq> CHR ''{''" "c = CHR ''[''"
            "skip_ws t \<noteq> [] \<and> hd (skip_ws t) = CHR '']''"
        | (flat) "c \<noteq> CHR ''{''" "c \<noteq> CHR ''[''"
        by blast
      then show ?thesis
      proof cases
        case obj
        from len n m' have "2 * length t + 1 \<le> n" "2 * length t + 1 \<le> m'" by simp_all
        with "2.IH"(1) [OF Cons obj] have "json_members n t = json_members m' t" by blast
        then show ?thesis
          by (simp only: m json_value.simps Cons list.case obj if_True if_False simp_thms)
      next
        case arr
        from len n m' have "2 * length t + 2 \<le> n" "2 * length t + 2 \<le> m'" by simp_all
        with "2.IH"(2) [OF Cons arr] have "json_elements n t = json_elements m' t" by blast
        with Cons arr show ?thesis by (simp add: m) blast
      next
        case empty_obj
        with Cons show ?thesis by (simp add: m)
      next
        case empty_arr
        with Cons show ?thesis by (simp add: m)
      next
        case flat
        then show ?thesis
          by (simp only: m json_value.simps Cons list.case if_False simp_thms)
      qed
    qed
  qed
next
  case (3 s)
  then show ?case by simp
next
  case (4 n s)
  show ?case
  proof (intro impI allI)
    fix m
    assume n: "2 * length s + 2 \<le> Suc n" and "2 * length s + 2 \<le> m"
    then obtain m' where m: "m = Suc m'" and m': "2 * length s + 1 \<le> m'"
      by (cases m) auto
    from n have "2 * length s + 1 \<le> n" by simp
    with m' "4.IH"(1) have v: "json_value n s = json_value m' s" by blast
    show "json_elements (Suc n) s = json_elements m s"
    proof (cases "json_value n s")
      case None
      moreover from None v have "json_value m' s = None" by simp
      ultimately show ?thesis by (simp add: m)
    next
      case (Some a)
      obtain x t where a: "a = (x, t)" by (cases a)
      from Some a have vn: "json_value n s = Some (x, t)" by simp
      with v have vm: "json_value m' s = Some (x, t)" by simp
      from vn json_shorter(1) have l1: "length t < length s" by blast
      show ?thesis
      proof (cases "skip_ws t")
        case Nil
        with vn vm show ?thesis by (simp add: m)
      next
        case (Cons c t')
        note l2 = skip_ws_Cons [OF Cons]
        show ?thesis
        proof (cases "c = CHR '',''")
          case True
          from l1 l2 n m' have "2 * length t' + 2 \<le> n" "2 * length t' + 2 \<le> m'" by simp_all
          with "4.IH"(2) [OF Some a [symmetric] Cons True]
          have "json_elements n t' = json_elements m' t'" by blast
          with vn vm Cons True show ?thesis by (simp add: m)
        next
          case False
          with vn vm Cons show ?thesis by (simp add: m)
        qed
      qed
    qed
  qed
next
  case (5 s)
  then show ?case by simp
next
  case (6 n s)
  show ?case
  proof (intro impI allI)
    fix m
    assume n: "2 * length s + 1 \<le> Suc n" and "2 * length s + 1 \<le> m"
    then obtain m' where m: "m = Suc m'" and m': "2 * length s \<le> m'"
      by (cases m) auto
    show "json_members (Suc n) s = json_members m s"
    proof (cases "skip_ws s")
      case Nil
      then show ?thesis by (simp add: m)
    next
      case (Cons q t)
      note l0 = skip_ws_Cons [OF Cons]
      show ?thesis
      proof (cases "q = CHR 0x22")
        case False
        with Cons show ?thesis by (simp add: m)
      next
        case q: True
        show ?thesis
        proof (cases "json_chars t")
          case None
          with Cons q show ?thesis by (simp add: m)
        next
          case (Some a)
          obtain k t1 where a: "a = (k, t1)" by (cases a)
          from Some a have l1: "length t1 < length t" by (auto dest: json_chars_shorter)
          show ?thesis
          proof (cases "skip_ws t1")
            case Nil
            with Cons q Some a show ?thesis by (simp add: m)
          next
            case sk1: (Cons c t2)
            note l2 = skip_ws_Cons [OF sk1]
            show ?thesis
            proof (cases "c = CHR '':''")
              case False
              with Cons q Some a sk1 show ?thesis by (simp add: m)
            next
              case c: True
              from l0 l1 l2 n m' have "2 * length t2 + 1 \<le> n" "2 * length t2 + 1 \<le> m'"
                by simp_all
              with "6.IH"(1) [OF Cons q Some a [symmetric] sk1 c]
              have v: "json_value n t2 = json_value m' t2" by blast
              show ?thesis
              proof (cases "json_value n t2")
                case None
                moreover from None v have "json_value m' t2 = None" by simp
                ultimately show ?thesis using Cons q Some a sk1 c by (simp add: m)
              next
                case val: (Some b)
                obtain x t3 where b: "b = (x, t3)" by (cases b)
                from val b have vn: "json_value n t2 = Some (x, t3)" by simp
                with v have vm: "json_value m' t2 = Some (x, t3)" by simp
                from vn json_shorter(1) have l3: "length t3 < length t2" by blast
                show ?thesis
                proof (cases "skip_ws t3")
                  case Nil
                  with Cons q Some a sk1 c vn vm show ?thesis by (simp add: m)
                next
                  case sk3: (Cons d t4)
                  note l4 = skip_ws_Cons [OF sk3]
                  show ?thesis
                  proof (cases "d = CHR '',''")
                    case False
                    with Cons q Some a sk1 c vn vm sk3 show ?thesis by (simp add: m)
                  next
                    case True
                    from l0 l1 l2 l3 l4 n m'
                    have "2 * length t4 + 1 \<le> n" "2 * length t4 + 1 \<le> m'" by simp_all
                    with "6.IH"(2) [OF Cons q Some a [symmetric] sk1 c val b [symmetric] sk3 True]
                    have "json_members n t4 = json_members m' t4" by blast
                    with Cons q Some a sk1 c vn vm sk3 True show ?thesis by (simp add: m)
                  qed
                qed
              qed
            qed
          qed
        qed
      qed
    qed
  qed
qed

lemma JSON_parse_fuel:
  assumes "2 * length s + 1 \<le> n"
  shows "JSON_parse s =
           (case json_value n s of
              None \<Rightarrow> None
            | Some (v, r) \<Rightarrow> if skip_ws r = [] then Some v else None)"
proof -
  from json_fuel(1) [of s "2 * length s + 2"] assms
  have "json_value (2 * length s + 2) s = json_value n s" by simp
  then show ?thesis by (simp add: JSON_parse_def)
qed

subsection \<open>The state after a call\<close>

lemma try_block_cases:
  "try_block S e w = (r, w') \<Longrightarrow>
     (\<exists>f. r = Inl f \<and> w' = w\<lparr>calls := calls w @ [MetricsPrompt S]\<rparr>)
   \<or> (\<exists>m. r = Inr m \<and> w' = w\<lparr>calls := calls w @ [MetricsPrompt S],
          stockCache := (stockCache w)(S \<mapsto> \<lparr>data = m, timestamp = now_store e\<rparr>)\<rparr>)"
  by (auto simp: try_block_def Let_def split: option.splits if_splits)

lemma try_block_failure_cache:
  "try_block S e w = (Inl f, w') \<Longrightarrow> stockCache w' = stockCache w"
  by (drule try_block_cases) auto

lemma getStockMetrics_hit:
  "lookup w S (now_lookup e) = Some d \<Longrightarrow> getStockMetrics S e w = (Inr d, w)"
  by (simp add: getStockMetrics_def)

lemma getStockMetrics_miss:
  assumes "lookup w S (now_lookup e) = None"
  shows "(\<exists>f. try_block S e w = (Inl f, w\<lparr>calls := calls w @ [MetricsPrompt S]\<rparr>)
            \<and> getStockMetrics S e w
                = (Inl (Error (failed_message S)), w\<lparr>calls := calls w @ [MetricsPrompt S]\<rparr>))
       \<or> (\<exists>m. getStockMetrics S e w
                = (Inr m, w\<lparr>calls := calls w @ [MetricsPrompt S],
                     stockCache := (stockCache w)(S \<mapsto> \<lparr>data = m, timestamp = now_store e\<rparr>)\<rparr>))"
proof -
  obtain r w' where t: "try_block S e w = (r, w')" by (cases "try_block S e w")
  from try_block_cases [OF t] show ?thesis
    using assms t by (auto simp: getStockMetrics_def)
qed

lemma getStockMetrics_cache:
  "stockCache (snd (getStockMetrics S e w)) = stockCache w
   \<or> (\<exists>m. lookup w S (now_lookup e) = None \<and> fst (getStockMetrics S e w) = Inr m
          \<and> stockCache (snd (getStockMetrics S e w))
              = (stockCache w)(S \<mapsto> \<lparr>data = m, timestamp = now_store e\<rparr>))"
proof (cases "lookup w S (now_lookup e)")
  case None
  from getStockMetrics_miss [OF None] None show ?thesis by auto
next
  case (Some d)
  from getStockMetrics_hit [OF Some] show ?thesis by simp
qed

text \<open>
  Claim C4. Whenever \<^verbatim>\<open>getStockMetrics\<close> fails, whatever the cause (the model call, an empty
  reply, a reply that does not parse), the cache after the call is the cache before it: no
  entry is written or overwritten, for that symbol or any other.
\<close>

theorem failure_leaves_cache:
  "fst (getStockMetrics S e w) = Inl err \<Longrightarrow>
     stockCache (snd (getStockMetrics S e w)) = stockCache w"
  by (auto simp: getStockMetrics_def split: option.splits prod.splits sum.splits
      dest: try_block_failure_cache)

theorem failure_leaves_cache_witness:
  "fst (getStockMetrics ''ACME'' (sample_env ''I cannot help with that.'') sample_world)
     = Inl (Error (failed_message ''ACME''))
   \<and> stockCache (snd (getStockMetrics ''ACME'' (sample_env ''I cannot help with that.'')
        sample_world)) = stockCache sample_world
   \<and> fst (getStockMetrics ''ACME'' (sample_env '''') sample_world)
     = Inl (Error (failed_message ''ACME''))
   \<and> stockCache (snd (getStockMetrics ''ACME'' (sample_env '''') sample_world))
     = stockCache sample_world"
proof -
  have h: "fst (getStockMetrics ''ACME'' (sample_env ''I cannot help with that.'') sample_world)
     = Inl (Error (failed_message ''ACME''))"
    by code_simp
  have h': "fst (getStockMetrics ''ACME'' (sample_env '''') sample_world)
     = Inl (Error (failed_message ''ACME''))"
    by code_simp
  from failure_leaves_cache [OF h] failure_leaves_cache [OF h'] h h'
  show ?thesis by simp
qed

subsection \<open>The cache\<close>

text \<open>
  Claim C1. When a call of \<^verbatim>\<open>getStockMetrics\<close> for a symbol retrieved a record (it was not
  itself served from the cache) and succeeded, a second call for the same symbol whose
  lookup happens less than five minutes after the first call stored its entry, with that
  entry still in the cache, returns the same record and leaves the state as it is: in
  particular it adds no call to the model.
\<close>

theorem second_call_served_from_cache:
  assumes first: "getStockMetrics S e1 w = (Inr m, w1)"
    and retrieved: "lookup w S (now_lookup e1) = None"
    and in_place: "stockCache w2 S = stockCache w1 S"
    and within: "now_lookup e2 - now_store e1 < CACHE_TTL"
  shows "getStockMetrics S e2 w2 = (Inr m, w2)"
proof -
  from getStockMetrics_miss [OF retrieved] first
  have "stockCache w1 S = Some \<lparr>data = m, timestamp = now_store e1\<rparr>"
    by auto
  with in_place within have "lookup w2 S (now_lookup e2) = Some m"
    by (simp add: lookup_def)
  then show ?thesis by (rule getStockMetrics_hit)
qed

theorem second_call_served_from_cache_witness:
  "fst (getStockMetrics ''ACME'' (sample_env ''{}'') sample_world)
     = Inr \<lparr>stockName = Some (JStr ''ACME''), symbol = Some (JStr ''ACME''),
          currentPrice = Finite 100, dayHigh = Finite 110, dayLow = Finite 90,
          peRatio = Finite 25, roe = Finite 0.35, debtToEquity = Finite 0.7,
          profitMargins = Finite 0.35, revenueGrowth = Finite 0.2\<rparr>
   \<and> lookup sample_world ''ACME'' (now_lookup (sample_env ''{}'')) = None
   \<and> now_lookup (later_env 600009) - now_store (sample_env ''{}'') < CACHE_TTL
   \<and> getStockMetrics ''ACME'' (later_env 600009)
        (snd (getStockMetrics ''ACME'' (sample_env ''{}'') sample_world))
     = (Inr \<lparr>stockName = Some (JStr ''ACME''), symbol = Some (JStr ''ACME''),
          currentPrice = Finite 100, dayHigh = Finite 110, dayLow = Finite 90,
          peRatio = Finite 25, roe = Finite 0.35, debtToEquity = Finite 0.7,
          profitMargins = Finite 0.35, revenueGrowth = Finite 0.2\<rparr>,
        snd (getStockMetrics ''ACME'' (sample_env ''{}'') sample_world))"
proof -
  let ?m = "\<lparr>stockName = Some (JStr ''ACME''), symbol = Some (JStr ''ACME''),
          currentPrice = Finite 100, dayHigh = Finite 110, dayLow = Finite 90,
          peRatio = Finite 25, roe = Finite 0.35, debtToEquity = Finite 0.7,
          profitMargins = Finite 0.35, revenueGrowth = Finite 0.2\<rparr>"
  let ?w1 = "snd (getStockMetrics ''ACME'' (sample_env ''{}'') sample_world)"
  have h1: "fst (getStockMetrics ''ACME'' (sample_env ''{}'') sample_world) = Inr ?m"
    by code_simp
  then have first: "getStockMetrics ''ACME'' (sample_env ''{}'') sample_world = (Inr ?m, ?w1)"
    by (simp add: prod_eq_iff)
  have h2: "lookup sample_world ''ACME'' (now_lookup (sample_env ''{}'')) = None"
    by code_simp
  have h3: "now_lookup (later_env 600009) - now_store (sample_env ''{}'') < CACHE_TTL"
    by code_simp
  from second_call_served_from_cache [OF first h2 refl h3] h1 h2 h3
  show ?thesis by blast
qed

text \<open>
  Claim C8. The lookup returns the cached record only if the clock minus the entry's
  timestamp is strictly less than five minutes. A stale entry is treated as absent: the
  lookup returns nothing, the model is called, and the entry stays as it is unless the
  retrieval succeeds; then the entry is overwritten by the new record, with a timestamp
  later than the old one (the clock does not run backwards between lines 150 and 211).
\<close>

theorem stale_entry_is_refreshed:
  assumes entry: "stockCache w S = Some old"
    and clock: "now_lookup e \<le> now_store e"
  shows "(\<forall>d. lookup w S (now_lookup e) = Some d \<longrightarrow>
            now_lookup e - timestamp old < CACHE_TTL \<and> d = data old)
     \<and> (\<not> now_lookup e - timestamp old < CACHE_TTL \<longrightarrow>
           lookup w S (now_lookup e) = None
         \<and> calls (snd (getStockMetrics S e w)) = calls w @ [MetricsPrompt S]
         \<and> (case fst (getStockMetrics S e w) of
               Inl err \<Rightarrow> stockCache (snd (getStockMetrics S e w)) = stockCache w
             | Inr m \<Rightarrow>
                 stockCache (snd (getStockMetrics S e w))
                   = (stockCache w)(S \<mapsto> \<lparr>data = m, timestamp = now_store e\<rparr>)
                 \<and> timestamp old < now_store e))"
proof (intro conjI allI impI)
  fix d assume "lookup w S (now_lookup e) = Some d"
  with entry show "now_lookup e - timestamp old < CACHE_TTL" "d = data old"
    by (auto simp: lookup_def split: if_splits)
next
  assume stale: "\<not> now_lookup e - timestamp old < CACHE_TTL"
  with entry show miss: "lookup w S (now_lookup e) = None"
    by (simp add: lookup_def)
  from stale clock have later: "timestamp old < now_store e"
    by (simp add: CACHE_TTL_def)
  from getStockMetrics_miss [OF miss]
  show "calls (snd (getStockMetrics S e w)) = calls w @ [MetricsPrompt S]"
    by auto
  from getStockMetrics_miss [OF miss] later
  show "case fst (getStockMetrics S e w) of
          Inl err \<Rightarrow> stockCache (snd (getStockMetrics S e w)) = stockCache w
        | Inr m \<Rightarrow>
            stockCache (snd (getStockMetrics S e w))
              = (stockCache w)(S \<mapsto> \<lparr>data = m, timestamp = now_store e\<rparr>)
            \<and> timestamp old < now_store e"
    by auto
qed

theorem stale_entry_is_refreshed_witness:
  "stockCache sample_world ''ACME'' = Some \<lparr>data = sample_metrics, timestamp = 0\<rparr>
   \<and> now_lookup (sample_env ''{}'') \<le> now_store (sample_env ''{}'')
   \<and> \<not> now_lookup (sample_env ''{}'') - 0 < CACHE_TTL
   \<and> lookup sample_world ''ACME'' (now_lookup (sample_env ''{}'')) = None
   \<and> calls (snd (getStockMetrics ''ACME'' (sample_env ''{}'') sample_world))
       = calls sample_world @ [MetricsPrompt ''ACME'']
   \<and> stockCache (snd (getStockMetrics ''ACME'' (sample_env ''{}'') sample_world)) ''ACME''
       = Some \<lparr>data =
            \<lparr>stockName = Some (JStr ''ACME''), symbol = Some (JStr ''ACME''),
             currentPrice = Finite 100, dayHigh = Finite 110, dayLow = Finite 90,
             peRatio = Finite 25, roe = Finite 0.35, debtToEquity = Finite 0.7,
             profitMargins = Finite 0.35, revenueGrowth = Finite 0.2\<rparr>,
          timestamp = now_store (sample_env ''{}'')\<rparr>
   \<and> (0::int) < now_store (sample_env ''{}'')"
proof -
  let ?e = "sample_env ''{}''"
  let ?old = "\<lparr>data = sample_metrics, timestamp = 0\<rparr>"
  have h1: "stockCache sample_world ''ACME'' = Some ?old"
    by (simp add: sample_world_def)
  have h2: "now_lookup ?e \<le> now_store ?e"
    by (simp add: sample_env_def)
  have h3: "\<not> now_lookup ?e - timestamp ?old < CACHE_TTL"
    by (simp add: sample_env_def CACHE_TTL_def)
  have h4: "fst (getStockMetrics ''ACME'' ?e sample_world)
      = Inr \<lparr>stockName = Some (JStr ''ACME''), symbol = Some (JStr ''ACME''),
             currentPrice = Finite 100, dayHigh = Finite 110, dayLow = Finite 90,
             peRatio = Finite 25, roe = Finite 0.35, debtToEquity = Finite 0.7,
             profitMargins = Finite 0.35, revenueGrowth = Finite 0.2\<rparr>"
    by code_simp
  from stale_entry_is_refreshed [OF h1 h2] h3 h4
  show ?thesis using h1 h2 by simp
qed

subsection \<open>Normalisation\<close>

lemma metric_Some:
  "metric v sc off rnd k = Some (x, k') \<Longrightarrow>
     (if truthy v then Number v = Some x \<and> k' = k
      else x = Finite (rnd k * sc + off) \<and> k' = Suc k)"
  by (auto simp: metric_def split: if_splits)

lemma metric_step:
  "metric v sc off rnd k = Some (x, k') \<Longrightarrow> k' = k + (if truthy v then 0 else 1)"
  by (auto simp: metric_def split: if_splits)

lemma metric_None:
  "metric v sc off rnd k = None \<longleftrightarrow> truthy v \<and> Number v = None"
  by (simp add: metric_def)

lemma metric_defined:
  "metric v sc off rnd k = Some p \<Longrightarrow> truthy v \<longrightarrow> (\<exists>y. Number v = Some y)"
  by (auto simp: metric_def)

lemma normalize_Some:
  assumes "normalize parsed S rnd = Some m"
  obtains k1 k2 k3 k4 k5 k6 k7 k8 where
    "metric (get_prop parsed ''currentPrice'') 100 50 rnd 0 = Some (currentPrice m, k1)"
    "metric (get_prop parsed ''dayHigh'') 100 60 rnd k1 = Some (dayHigh m, k2)"
    "metric (get_prop parsed ''dayLow'') 100 40 rnd k2 = Some (dayLow m, k3)"
    "metric (get_prop parsed ''peRatio'') 30 10 rnd k3 = Some (peRatio m, k4)"
    "metric (get_prop parsed ''roe'') 0.5 0.1 rnd k4 = Some (roe m, k5)"
    "metric (get_prop parsed ''debtToEquity'') 1 0.2 rnd k5 = Some (debtToEquity m, k6)"
    "metric (get_prop parsed ''profitMargins'') 0.5 0.1 rnd k6 = Some (profitMargins m, k7)"
    "metric (get_prop parsed ''revenueGrowth'') 0.3 0.05 rnd k7 = Some (revenueGrowth m, k8)"
    "stockName m = or_else (get_prop parsed ''stockName'')
                  (or_else (get_prop parsed ''name'') (Some (JStr S)))"
    "symbol m = or_else (get_prop parsed ''symbol'') (Some (JStr S))"
  using assms unfolding normalize_def
  by (auto simp: bind_eq_Some_conv)

lemma normalize_None_iff:
  "normalize parsed S rnd = None \<longleftrightarrow> coercion_throws parsed"
  unfolding normalize_def coercion_throws_def documented_ranges_def
  apply (simp add: metric_None split: Option.bind_split prod.splits)
  apply (blast dest: metric_defined)
  done

lemma normalize_Some_no_throw:
  "normalize parsed S rnd = Some m \<Longrightarrow> \<not> coercion_throws parsed"
  using normalize_None_iff [of parsed S rnd] by simp

lemma placeholder_in_range:
  assumes "0 \<le> (r::real)" "r < 1" "lo \<le> hi"
  shows "lo \<le> lo + r * (hi - lo) \<and> lo + r * (hi - lo) \<le> hi"
proof -
  from assms have d: "0 \<le> hi - lo" by simp
  with assms(1) have "0 \<le> r * (hi - lo)" by (rule mult_nonneg_nonneg)
  moreover from d assms have "r * (hi - lo) \<le> hi - lo"
    by (intro mult_left_le_one_le) auto
  ultimately show ?thesis by simp
qed

lemma metric_field:
  assumes "metric v sc off rnd k = Some (x, k')"
    and "0 \<le> rnd k \<and> rnd k < 1" and "lo \<le> hi" and "sc = hi - lo" and "off = lo"
  shows "if truthy v then Number v = Some x
         else x = Finite (lo + rnd k * (hi - lo)) \<and> in_range lo hi x"
  using metric_Some [OF assms(1)] placeholder_in_range [of "rnd k" lo hi] assms(2-5)
  by (auto simp: in_range_def)

lemma normalize_fields:
  assumes ok: "normalize parsed S rnd = Some m"
    and unit: "\<forall>k. 0 \<le> rnd k \<and> rnd k < 1"
  shows "\<forall>(name, field, lo, hi) \<in> set documented_ranges.
           if truthy (get_prop parsed name)
           then Number (get_prop parsed name) = Some (field m)
           else field m = Finite (lo + rnd (placeholders_before parsed name) * (hi - lo))
              \<and> in_range lo hi (field m)"
proof -
  from ok obtain k1 k2 k3 k4 k5 k6 k7 k8 where
    m1: "metric (get_prop parsed ''currentPrice'') 100 50 rnd 0 = Some (currentPrice m, k1)" and
    m2: "metric (get_prop parsed ''dayHigh'') 100 60 rnd k1 = Some (dayHigh m, k2)" and
    m3: "metric (get_prop parsed ''dayLow'') 100 40 rnd k2 = Some (dayLow m, k3)" and
    m4: "metric (get_prop parsed ''peRatio'') 30 10 rnd k3 = Some (peRatio m, k4)" and
    m5: "metric (get_prop parsed ''roe'') 0.5 0.1 rnd k4 = Some (roe m, k5)" and
    m6: "metric (get_prop parsed ''debtToEquity'') 1 0.2 rnd k5 = Some (debtToEquity m, k6)" and
    m7: "metric (get_prop parsed ''profitMargins'') 0.5 0.1 rnd k6 = Some (profitMargins m, k7)" and
    m8: "metric (get_prop parsed ''revenueGrowth'') 0.3 0.05 rnd k7 = Some (revenueGrowth m, k8)"
    by (rule normalize_Some)
  have p1: "placeholders_before parsed ''currentPrice'' = 0"
    by (simp add: placeholders_before_def documented_ranges_def)
  have p2: "placeholders_before parsed ''dayHigh'' = k1"
    using metric_step [OF m1]
    by (auto simp: placeholders_before_def documented_ranges_def split: if_splits)
  have p3: "placeholders_before parsed ''dayLow'' = k2"
    using metric_step [OF m2] p2
    by (auto simp: placeholders_before_def documented_ranges_def split: if_splits)
  have p4: "placeholders_before parsed ''peRatio'' = k3"
    using metric_step [OF m3] p3
    by (auto simp: placeholders_before_def documented_ranges_def split: if_splits)
  have p5: "placeholders_before parsed ''roe'' = k4"
    using metric_step [OF m4] p4
    by (auto simp: placeholders_before_def documented_ranges_def split: if_splits)
  have p6: "placeholders_before parsed ''debtToEquity'' = k5"
    using metric_step [OF m5] p5
    by (auto simp: placeholders_before_def documented_ranges_def split: if_splits)
  have p7: "placeholders_before parsed ''profitMargins'' = k6"
    using metric_step [OF m6] p6
    by (auto simp: placeholders_before_def documented_ranges_def split: if_splits)
  have p8: "placeholders_before parsed ''revenueGrowth'' = k7"
    using metric_step [OF m7] p7
    by (auto simp: placeholders_before_def documented_ranges_def split: if_splits)
  note f = metric_field [OF _ unit [rule_format]]
  have g1: "if truthy (get_prop parsed ''currentPrice'')
      then Number (get_prop parsed ''currentPrice'') = Some (currentPrice m)
      else currentPrice m = Finite (50 + rnd (placeholders_before parsed ''currentPrice'') * (150 - 50))
         \<and> in_range 50 150 (currentPrice m)"
    using f [OF m1, of "50" "150"] by (auto simp: p1 split: if_splits)
  have g2: "if truthy (get_prop parsed ''dayHigh'')
      then Number (get_prop parsed ''dayHigh'') = Some (dayHigh m)
      else dayHigh m = Finite (60 + rnd (placeholders_before parsed ''dayHigh'') * (160 - 60))
         \<and> in_range 60 160 (dayHigh m)"
    using f [OF m2, of "60" "160"] by (auto simp: p2 split: if_splits)
  have g3: "if truthy (get_prop parsed ''dayLow'')
      then Number (get_prop parsed ''dayLow'') = Some (dayLow m)
      else dayLow m = Finite (40 + rnd (placeholders_before parsed ''dayLow'') * (140 - 40))
         \<and> in_range 40 140 (dayLow m)"
    using f [OF m3, of "40" "140"] by (auto simp: p3 split: if_splits)
  have g4: "if truthy (get_prop parsed ''peRatio'')
      then Number (get_prop parsed ''peRatio'') = Some (peRatio m)
      else peRatio m = Finite (10 + rnd (placeholders_before parsed ''peRatio'') * (40 - 10))
         \<and> in_range 10 40 (peRatio m)"
    using f [OF m4, of "10" "40"] by (auto simp: p4 split: if_splits)
  have g5: "if truthy (get_prop parsed ''roe'')
      then Number (get_prop parsed ''roe'') = Some (roe m)
      else roe m = Finite (0.1 + rnd (placeholders_before parsed ''roe'') * (0.6 - 0.1))
         \<and> in_range 0.1 0.6 (roe m)"
    using f [OF m5, of "0.1" "0.6"] by (auto simp: p5 split: if_splits)
  have g6: "if truthy (get_prop parsed ''debtToEquity'')
      then Number (get_prop parsed ''debtToEquity'') = Some (debtToEquity m)
      else debtToEquity m = Finite (0.2 + rnd (placeholders_before parsed ''debtToEquity'') * (1.2 - 0.2))
         \<and> in_range 0.2 1.2 (debtToEquity m)"
    using f [OF m6, of "0.2" "1.2"] by (auto simp: p6 split: if_splits)
  have g7: "if truthy (get_prop parsed ''profitMargins'')
      then Number (get_prop parsed ''profitMargins'') = Some (profitMargins m)
      else profitMargins m = Finite (0.1 + rnd (placeholders_before parsed ''profitMargins'') * (0.6 - 0.1))
         \<and> in_range 0.1 0.6 (profitMargins m)"
    using f [OF m7, of "0.1" "0.6"] by (auto simp: p7 split: if_splits)
  have g8: "if truthy (get_prop parsed ''revenueGrowth'')
      then Number (get_prop parsed ''revenueGrowth'') = Some (revenueGrowth m)
      else revenueGrowth m = Finite (0.05 + rnd (placeholders_before parsed ''revenueGrowth'') * (0.35 - 0.05))
         \<and> in_range 0.05 0.35 (revenueGrowth m)"
    using f [OF m8, of "0.05" "0.35"] by (auto simp: p8 split: if_splits)
  show ?thesis
    unfolding documented_ranges_def list.set ball_simps prod.case
    by (intro conjI g1 g2 g3 g4 g5 g6 g7 g8 TrueI)
qed

lemma normalize_coerced:
  assumes "normalize parsed S rnd = Some m"
  shows "\<forall>(name, field, lo, hi) \<in> set documented_ranges.
           truthy (get_prop parsed name) \<longrightarrow> Number (get_prop parsed name) = Some (field m)"
proof -
  from assms obtain k1 k2 k3 k4 k5 k6 k7 k8 where
    "metric (get_prop parsed ''currentPrice'') 100 50 rnd 0 = Some (currentPrice m, k1)"
    "metric (get_prop parsed ''dayHigh'') 100 60 rnd k1 = Some (dayHigh m, k2)"
    "metric (get_prop parsed ''dayLow'') 100 40 rnd k2 = Some (dayLow m, k3)"
    "metric (get_prop parsed ''peRatio'') 30 10 rnd k3 = Some (peRatio m, k4)"
    "metric (get_prop parsed ''roe'') 0.5 0.1 rnd k4 = Some (roe m, k5)"
    "metric (get_prop parsed ''debtToEquity'') 1 0.2 rnd k5 = Some (debtToEquity m, k6)"
    "metric (get_prop parsed ''profitMargins'') 0.5 0.1 rnd k6 = Some (profitMargins m, k7)"
    "metric (get_prop parsed ''revenueGrowth'') 0.3 0.05 rnd k7 = Some (revenueGrowth m, k8)"
    by (rule normalize_Some)
  note ms = this [THEN metric_Some]
  show ?thesis
    unfolding documented_ranges_def list.set ball_simps prod.case
    using ms by (intro conjI impI TrueI) simp_all
qed

lemma getStockMetrics_success:
  assumes "lookup w S (now_lookup e) = None" and "fst (getStockMetrics S e w) = Inr m"
  shows "\<exists>parsed. parse_reply (reply_text (reply e)) = Some parsed
           \<and> truthy (Some parsed) \<and> typeof parsed = ''object''
           \<and> normalize parsed S (random e) = Some m"
  using assms
  by (auto simp: getStockMetrics_def try_block_def Let_def
      split: option.splits if_splits prod.splits sum.splits)

text \<open>
  Claim C5. In the record returned for a parsed reply, each numeric field is \<^verbatim>\<open>Number\<close> of
  the parsed value when that value is truthy; otherwise it is a placeholder, the lower end
  of the field's documented range plus a result of \<^verbatim>\<open>Math.random()\<close> times the width of
  the range (each placeholder its own result), and so, \<^verbatim>\<open>Math.random()\<close> being in \<open>[0, 1)\<close>,
  a number within the documented range.
\<close>

theorem numeric_fields_coerced_or_placeholder:
  assumes miss: "lookup w S (now_lookup e) = None"
    and parsed: "parse_reply (reply_text (reply e)) = Some parsed"
    and returned: "fst (getStockMetrics S e w) = Inr m"
    and unit: "\<forall>k. 0 \<le> random e k \<and> random e k < 1"
  shows "\<forall>(name, field, lo, hi) \<in> set documented_ranges.
           if truthy (get_prop parsed name)
           then Number (get_prop parsed name) = Some (field m)
           else field m = Finite (lo + random e (placeholders_before parsed name) * (hi - lo))
              \<and> in_range lo hi (field m)"
proof -
  from getStockMetrics_success [OF miss returned] parsed
  have "normalize parsed S (random e) = Some m" by auto
  then show ?thesis using unit by (rule normalize_fields)
qed

theorem numeric_fields_coerced_or_placeholder_witness:
  "lookup sample_world ''ACME'' (now_lookup (sample_env acme_reply)) = None
   \<and> fst (getStockMetrics ''ACME''
         (sample_env acme_reply) sample_world)
       = Inr \<lparr>stockName = Some (JStr ''Acme''), symbol = Some (JStr ''ACME''),
              currentPrice = Finite 42, dayHigh = Finite 110, dayLow = Finite 90,
              peRatio = Finite 25, roe = Finite 0.35, debtToEquity = Finite 0.7,
              profitMargins = Finite 0.35, revenueGrowth = Finite 0.2\<rparr>
   \<and> Number (Some (JNum (Finite 42))) = Some (Finite 42)
   \<and> in_range 60 160 (Finite 110)
   \<and> in_range 0.05 0.35 (Finite 0.2)"
proof -
  let ?t = acme_reply
  let ?p = "JObj [(''stockName'', JStr ''Acme''), (''symbol'', JStr ''ACME''),
                  (''currentPrice'', JNum (Finite 42))]"
  let ?m = "\<lparr>stockName = Some (JStr ''Acme''), symbol = Some (JStr ''ACME''),
              currentPrice = Finite 42, dayHigh = Finite 110, dayLow = Finite 90,
              peRatio = Finite 25, roe = Finite 0.35, debtToEquity = Finite 0.7,
              profitMargins = Finite 0.35, revenueGrowth = Finite 0.2\<rparr>"
  have h1: "lookup sample_world ''ACME'' (now_lookup (sample_env ?t)) = None"
    by code_simp
  have h2: "parse_reply (reply_text (reply (sample_env ?t))) = Some ?p"
    by code_simp
  have h3: "fst (getStockMetrics ''ACME'' (sample_env ?t) sample_world) = Inr ?m"
    by code_simp
  have h4: "\<forall>k. 0 \<le> random (sample_env ?t) k \<and> random (sample_env ?t) k < 1"
    by (simp add: sample_env_def)
  from numeric_fields_coerced_or_placeholder [OF h1 h2 h3 h4]
  have "Number (Some (JNum (Finite 42))) = Some (Finite 42)
      \<and> in_range 60 160 (Finite 110) \<and> in_range 0.05 0.35 (Finite 0.2)"
    by (simp add: documented_ranges_def)
  with h1 h3 show ?thesis by blast
qed

text \<open>
  Claim C6. When the parsed reply gives a numeric field the value 0, the returned record
  does not hold 0 for that field: 0 is falsy, so the field is the placeholder drawn from
  its documented range, whose lower end is above 0.
\<close>

theorem zero_is_replaced:
  assumes miss: "lookup w S (now_lookup e) = None"
    and parsed: "parse_reply (reply_text (reply e)) = Some parsed"
    and returned: "fst (getStockMetrics S e w) = Inr m"
    and unit: "\<forall>k. 0 \<le> random e k \<and> random e k < 1"
  shows "\<forall>(name, field, lo, hi) \<in> set documented_ranges.
           get_prop parsed name = Some (JNum (Finite 0)) \<longrightarrow>
             field m \<noteq> Finite 0
           \<and> field m = Finite (lo + random e (placeholders_before parsed name) * (hi - lo))
           \<and> in_range lo hi (field m)"
proof -
  from getStockMetrics_success [OF miss returned] parsed
  have "normalize parsed S (random e) = Some m" by auto
  from normalize_fields [OF this unit]
  have fields: "\<forall>(name, field, lo, hi) \<in> set documented_ranges.
           if truthy (get_prop parsed name)
           then Number (get_prop parsed name) = Some (field m)
           else field m = Finite (lo + random e (placeholders_before parsed name) * (hi - lo))
              \<and> in_range lo hi (field m)" .
  have positive: "\<forall>(name, field, lo, hi) \<in> set documented_ranges. 0 < lo"
    by (simp add: documented_ranges_def)
  show ?thesis
  proof (intro ballI, clarify)
    fix name field lo hi
    assume row: "(name, field, lo, hi) \<in> set documented_ranges"
      and zero: "get_prop parsed name = Some (JNum (Finite 0))"
    from bspec [OF fields row] zero
    have "field m = Finite (lo + random e (placeholders_before parsed name) * (hi - lo))"
      and r: "in_range lo hi (field m)"
      by auto
    moreover from bspec [OF positive row] have "0 < lo" by simp
    with r have "field m \<noteq> Finite 0" by (auto simp: in_range_def)
    ultimately show "field m \<noteq> Finite 0
           \<and> field m = Finite (lo + random e (placeholders_before parsed name) * (hi - lo))
           \<and> in_range lo hi (field m)"
      by simp
  qed
qed

theorem zero_is_replaced_witness:
  \<open>lookup sample_world ''ACME'' (now_lookup (sample_env ''{"roe":0,"peRatio":0.0}'')) = None
   \<and> parse_reply (reply_text (reply (sample_env ''{"roe":0,"peRatio":0.0}'')))
       = Some (JObj [(''roe'', JNum (Finite 0)), (''peRatio'', JNum (Finite 0))])
   \<and> roe (projr (fst (getStockMetrics ''ACME'' (sample_env ''{"roe":0,"peRatio":0.0}'')
         sample_world))) = Finite 0.35
   \<and> roe (projr (fst (getStockMetrics ''ACME'' (sample_env ''{"roe":0,"peRatio":0.0}'')
         sample_world))) \<noteq> Finite 0
   \<and> in_range 0.1 0.6 (roe (projr (fst (getStockMetrics ''ACME''
         (sample_env ''{"roe":0,"peRatio":0.0}'') sample_world))))\<close>
proof -
  let ?e = \<open>sample_env ''{"roe":0,"peRatio":0.0}''\<close>
  let ?p = "JObj [(''roe'', JNum (Finite 0)), (''peRatio'', JNum (Finite 0))]"
  let ?m = "\<lparr>stockName = Some (JStr ''ACME''), symbol = Some (JStr ''ACME''),
             currentPrice = Finite 100, dayHigh = Finite 110, dayLow = Finite 90,
             peRatio = Finite 25, roe = Finite 0.35, debtToEquity = Finite 0.7,
             profitMargins = Finite 0.35, revenueGrowth = Finite 0.2\<rparr>"
  have h1: "lookup sample_world ''ACME'' (now_lookup ?e) = None"
    by code_simp
  have h2: "parse_reply (reply_text (reply ?e)) = Some ?p"
    by code_simp
  have h3: "fst (getStockMetrics ''ACME'' ?e sample_world) = Inr ?m"
    by code_simp
  have h4: "\<forall>k. 0 \<le> random ?e k \<and> random ?e k < 1"
    by (simp add: sample_env_def)
  from zero_is_replaced [OF h1 h2 h3 h4]
  have "roe ?m \<noteq> Finite 0 \<and> in_range 0.1 0.6 (roe ?m)"
    by (simp add: documented_ranges_def)
  with h1 h2 h3 show ?thesis by simp
qed

subsection \<open>Parsing the reply\<close>

lemma jsonMatch_Some:
  assumes "jsonMatch text = Some matched"
  shows "\<exists>pre mid post. text = pre @ matched @ post \<and> matched = CHR ''{'' # mid @ [CHR ''}'']
           \<and> CHR ''{'' \<notin> set pre \<and> CHR ''}'' \<notin> set post"
proof -
  define pre where "pre = takeWhile (\<lambda>c. c \<noteq> CHR ''{'') text"
  define fb where "fb = dropWhile (\<lambda>c. c \<noteq> CHR ''{'') text"
  define post where "post = rev (takeWhile (\<lambda>c. c \<noteq> CHR ''}'') (rev fb))"
  from assms have ne: "fb \<noteq> []" and close: "CHR ''}'' \<in> set (tl fb)"
    and matched: "matched = rev (dropWhile (\<lambda>c. c \<noteq> CHR ''}'') (rev fb))"
    by (auto simp: jsonMatch_def Let_def fb_def split: if_splits)
  have parts: "text = pre @ fb" by (simp add: pre_def fb_def)
  have pre: "CHR ''{'' \<notin> set pre"
    unfolding pre_def by (auto dest: set_takeWhileD)
  from ne have hd: "hd fb = CHR ''{''"
    unfolding fb_def using hd_dropWhile [of "\<lambda>c. c \<noteq> CHR ''{''" "text"] by auto
  have fb: "fb = matched @ post"
    unfolding matched post_def
    by (metis rev_append rev_rev_ident takeWhile_dropWhile_id)
  have post: "CHR ''}'' \<notin> set post"
    unfolding post_def by (auto dest: set_takeWhileD)
  from close have "CHR ''}'' \<in> set (rev fb)" by (cases fb) auto
  then have dne: "dropWhile (\<lambda>c. c \<noteq> CHR ''}'') (rev fb) \<noteq> []" by auto
  then obtain xs where d: "dropWhile (\<lambda>c. c \<noteq> CHR ''}'') (rev fb) = CHR ''}'' # xs"
    using hd_dropWhile [of "\<lambda>c. c \<noteq> CHR ''}''" "rev fb"]
    by (cases "dropWhile (\<lambda>c. c \<noteq> CHR ''}'') (rev fb)") auto
  then have sp: "matched = rev xs @ [CHR ''}'']" by (simp add: matched)
  have "rev xs \<noteq> []"
  proof
    assume "rev xs = []"
    with sp fb have "hd fb = CHR ''}''" by simp
    with hd show False by simp
  qed
  then obtain mid where mid: "rev xs = CHR ''{'' # mid"
    using sp fb hd by (cases "rev xs") auto
  from parts fb sp mid pre post show ?thesis by auto
qed

lemma jsonMatch_None:
  assumes "jsonMatch text = None"
  shows "\<not> (\<exists>pre mid post. text = pre @ CHR ''{'' # mid @ CHR ''}'' # post)"
proof
  assume "\<exists>pre mid post. text = pre @ CHR ''{'' # mid @ CHR ''}'' # post"
  then obtain pre mid post where t: "text = pre @ CHR ''{'' # mid @ CHR ''}'' # post" by blast
  have "\<exists>zs. dropWhile (\<lambda>c. c \<noteq> CHR ''{'') text = CHR ''{'' # zs \<and> CHR ''}'' \<in> set zs"
    unfolding t
  proof (induction pre)
    case Nil
    then show ?case by simp
  next
    case (Cons a pre)
    then show ?case by (cases "a = CHR ''{''") auto
  qed
  then obtain zs where "dropWhile (\<lambda>c. c \<noteq> CHR ''{'') text = CHR ''{'' # zs"
    and "CHR ''}'' \<in> set zs" by blast
  then have "jsonMatch text \<noteq> None"
    by (simp add: jsonMatch_def Let_def)
  with assms show False by simp
qed

lemma try_block_InvalidJSON:
  assumes "reply e = Text t" and "trim t \<noteq> []"
  shows "fst (try_block S e w) = Inl InvalidJSON \<longleftrightarrow> parse_reply t = None"
  using assms
  by (auto simp: try_block_def Let_def reply_text_def trim_def split: option.splits)

text \<open>
  Claim C2, as the code has it. For a reply that is not blank, the text that is parsed is
  the match of the greedy pattern, which runs from the first \<^verbatim>\<open>{\<close> of the reply to its
  last \<^verbatim>\<open>}\<close>, when there is such a match, and the entire reply only when there is none
  (no \<^verbatim>\<open>}\<close> after a \<^verbatim>\<open>{\<close>). The retrieval fails as invalid JSON exactly when that one
  parse fails: a match that does not parse is not followed by a second attempt.
\<close>

theorem reply_parsed_through_greedy_match:
  assumes "reply e = Text t" and "trim t \<noteq> []"
  shows "(fst (try_block S e w) = Inl InvalidJSON \<longleftrightarrow> parse_reply t = None)
       \<and> (case jsonMatch t of
            Some matched \<Rightarrow>
              parse_reply t = JSON_parse matched
              \<and> (\<exists>pre mid post. t = pre @ matched @ post
                    \<and> matched = CHR ''{'' # mid @ [CHR ''}'']
                    \<and> CHR ''{'' \<notin> set pre \<and> CHR ''}'' \<notin> set post)
          | None \<Rightarrow>
              parse_reply t = JSON_parse t
              \<and> \<not> (\<exists>pre mid post. t = pre @ CHR ''{'' # mid @ CHR ''}'' # post))"
proof (intro conjI)
  show "fst (try_block S e w) = Inl InvalidJSON \<longleftrightarrow> parse_reply t = None"
    using assms by (rule try_block_InvalidJSON)
  show "case jsonMatch t of
            Some matched \<Rightarrow>
              parse_reply t = JSON_parse matched
              \<and> (\<exists>pre mid post. t = pre @ matched @ post
                    \<and> matched = CHR ''{'' # mid @ [CHR ''}'']
                    \<and> CHR ''{'' \<notin> set pre \<and> CHR ''}'' \<notin> set post)
          | None \<Rightarrow>
              parse_reply t = JSON_parse t
              \<and> \<not> (\<exists>pre mid post. t = pre @ CHR ''{'' # mid @ CHR ''}'' # post)"
  proof (cases "jsonMatch t")
    case None
    with jsonMatch_None [OF None] show ?thesis by (simp add: parse_reply_def)
  next
    case (Some matched)
    with jsonMatch_Some [OF Some] show ?thesis by (simp add: parse_reply_def)
  qed
qed

theorem reply_parsed_through_greedy_match_witness:
  "reply (sample_env acme_reply) = Text acme_reply
   \<and> trim acme_reply \<noteq> []
   \<and> jsonMatch acme_reply = Some (drop 6 acme_reply)
   \<and> parse_reply acme_reply = JSON_parse (drop 6 acme_reply)
   \<and> fst (try_block ''ACME'' (sample_env acme_reply) sample_world) \<noteq> Inl InvalidJSON"
proof -
  have h1: "reply (sample_env acme_reply) = Text acme_reply"
    by (simp add: sample_env_def)
  have h2: "trim acme_reply \<noteq> []"
    by code_simp
  have h3: "jsonMatch acme_reply = Some (drop 6 acme_reply)"
    by code_simp
  have h4: "parse_reply acme_reply \<noteq> None"
    by code_simp
  from reply_parsed_through_greedy_match [OF h1 h2, of "''ACME''" sample_world] h3 h4
  have "parse_reply acme_reply = JSON_parse (drop 6 acme_reply)
      \<and> fst (try_block ''ACME'' (sample_env acme_reply) sample_world) \<noteq> Inl InvalidJSON"
    by simp
  with h1 h2 h3 show ?thesis by blast
qed

text \<open>
  Claim C2 as stated fails on the reply \<^verbatim>\<open>[{},{}]\<close>: its first top-level span \<^verbatim>\<open>{}\<close> parses,
  and so does the entire reply, but the code parses the greedy match \<^verbatim>\<open>{},{}\<close> only, and
  fails.
\<close>

theorem first_span_counterexample:
  "jsonMatch ''[{},{}]'' = Some ''{},{}''
   \<and> parse_reply ''[{},{}]'' = None
   \<and> spec_first_span ''[{},{}]'' = Some ''{}''
   \<and> JSON_parse ''[{},{}]'' = Some (JArr [JObj [], JObj []])
   \<and> spec_parse_reply ''[{},{}]'' = Some (JObj [])
   \<and> fst (try_block ''ACME'' (sample_env ''[{},{}]'') sample_world) = Inl InvalidJSON"
  by code_simp

subsection \<open>Failure\<close>

text \<open>
  Claim C3, as the code has it. \<^verbatim>\<open>getStockMetrics\<close> fails exactly when the cache has no
  fresh entry and the model call fails, or the reply is empty or white space only, or the
  one parse of the reply fails, or the parsed value is \<^verbatim>\<open>null\<close> or not of type
  \<^verbatim>\<open>object\<close>, or \<^verbatim>\<open>Number\<close> raises a \<^verbatim>\<open>TypeError\<close> on a truthy numeric field. The error it
  throws then has the message of line 215, which names the symbol.
\<close>

theorem retrieval_fails_iff:
  "((\<exists>err. fst (getStockMetrics S e w) = Inl err) \<longleftrightarrow>
      lookup w S (now_lookup e) = None
      \<and> (reply e = Rejected
         \<or> trim (reply_text (reply e)) = []
         \<or> (case parse_reply (reply_text (reply e)) of
              None \<Rightarrow> True
            | Some parsed \<Rightarrow>
                \<not> truthy (Some parsed) \<or> typeof parsed \<noteq> ''object''
                \<or> coercion_throws parsed)))
   \<and> (\<forall>err. fst (getStockMetrics S e w) = Inl err \<longrightarrow>
         err = Error (''Failed to retrieve real-time data for '' @ S
                 @ ''. Please ensure the symbol is valid and try again.''))"
proof -
  have blank: "trim [] = []" by (simp add: trim_def)
  show ?thesis
    by (auto simp: getStockMetrics_def try_block_def Let_def failed_message_def blank
        normalize_None_iff
        split: option.splits prod.splits sum.splits if_splits
        dest: normalize_Some_no_throw)
qed

theorem retrieval_fails_iff_witness:
  "fst (getStockMetrics ''ACME'' (sample_env ''I cannot help with that.'') sample_world)
     = Inl (Error ''Failed to retrieve real-time data for ACME. Please ensure the symbol is valid and try again.'')
   \<and> lookup sample_world ''ACME'' (now_lookup (sample_env ''I cannot help with that.'')) = None
   \<and> jsonMatch ''I cannot help with that.'' = None
   \<and> parse_reply ''I cannot help with that.'' = None"
proof -
  let ?e = "sample_env ''I cannot help with that.''"
  have h: "fst (getStockMetrics ''ACME'' ?e sample_world) = Inl (Error (failed_message ''ACME''))"
    by code_simp
  from retrieval_fails_iff [of "''ACME''" ?e sample_world] h
  have "fst (getStockMetrics ''ACME'' ?e sample_world)
     = Inl (Error ''Failed to retrieve real-time data for ACME. Please ensure the symbol is valid and try again.'')"
    by simp
  moreover have "lookup sample_world ''ACME'' (now_lookup ?e) = None"
    by code_simp
  moreover have "jsonMatch ''I cannot help with that.'' = None"
    by code_simp
  moreover have "parse_reply ''I cannot help with that.'' = None"
    by code_simp
  ultimately show ?thesis by blast
qed

text \<open>
  Claim C3 as stated fails on the reply \<^verbatim>\<open>{"currentPrice":{"toString":1}}\<close>: the model
  call succeeds, the reply is not blank, it parses (by the code's reading and by the
  specification's), the parsed value is an object, and yet the retrieval fails: the
  value of \<^verbatim>\<open>currentPrice\<close> is truthy and \<^verbatim>\<open>Number\<close> raises a \<^verbatim>\<open>TypeError\<close> on it.
\<close>

theorem coercion_error_counterexample:
  \<open>reply (sample_env ''{"currentPrice":{"toString":1}}'')
     = Text ''{"currentPrice":{"toString":1}}''
   \<and> trim ''{"currentPrice":{"toString":1}}'' \<noteq> []
   \<and> parse_reply ''{"currentPrice":{"toString":1}}''
     = Some (JObj [(''currentPrice'', JObj [(''toString'', JNum (Finite 1))])])
   \<and> spec_parse_reply ''{"currentPrice":{"toString":1}}''
     = Some (JObj [(''currentPrice'', JObj [(''toString'', JNum (Finite 1))])])
   \<and> typeof (JObj [(''currentPrice'', JObj [(''toString'', JNum (Finite 1))])]) = ''object''
   \<and> fst (getStockMetrics ''ACME'' (sample_env ''{"currentPrice":{"toString":1}}'')
         sample_world) = Inl (Error (failed_message ''ACME''))\<close>
  by code_simp

subsection \<open>The returned record\<close>

lemma or_else_present: "present b \<Longrightarrow> present (or_else a b)"
  by (cases a rule: truthy.cases) (auto simp: or_else_def)

lemma lookup_Some:
  "lookup w S now = Some d \<Longrightarrow> \<exists>c. stockCache w S = Some c \<and> d = data c"
  by (auto simp: lookup_def split: option.splits if_splits)

lemma normalize_placeholder_finite:
  assumes "normalize parsed S rnd = Some m"
  shows "\<forall>(name, field, lo, hi) \<in> set documented_ranges.
           if truthy (get_prop parsed name)
           then Number (get_prop parsed name) = Some (field m)
           else is_finite (field m)"
proof -
  from assms obtain k1 k2 k3 k4 k5 k6 k7 k8 where
    "metric (get_prop parsed ''currentPrice'') 100 50 rnd 0 = Some (currentPrice m, k1)"
    "metric (get_prop parsed ''dayHigh'') 100 60 rnd k1 = Some (dayHigh m, k2)"
    "metric (get_prop parsed ''dayLow'') 100 40 rnd k2 = Some (dayLow m, k3)"
    "metric (get_prop parsed ''peRatio'') 30 10 rnd k3 = Some (peRatio m, k4)"
    "metric (get_prop parsed ''roe'') 0.5 0.1 rnd k4 = Some (roe m, k5)"
    "metric (get_prop parsed ''debtToEquity'') 1 0.2 rnd k5 = Some (debtToEquity m, k6)"
    "metric (get_prop parsed ''profitMargins'') 0.5 0.1 rnd k6 = Some (profitMargins m, k7)"
    "metric (get_prop parsed ''revenueGrowth'') 0.3 0.05 rnd k7 = Some (revenueGrowth m, k8)"
    by (rule normalize_Some)
  note ms = this [THEN metric_Some]
  show ?thesis
    unfolding documented_ranges_def list.set ball_simps prod.case
    using ms by (intro conjI TrueI) (simp_all split: if_splits)
qed

lemma normalize_present:
  assumes "normalize parsed S rnd = Some m"
  shows "list_all present (record_fields m)"
proof -
  from assms have "stockName m = or_else (get_prop parsed ''stockName'')
                  (or_else (get_prop parsed ''name'') (Some (JStr S)))"
    and "symbol m = or_else (get_prop parsed ''symbol'') (Some (JStr S))"
    by (auto elim: normalize_Some)
  then show ?thesis
    by (simp add: record_fields_def documented_ranges_def or_else_present)
qed

text \<open>
  Claim C7, as the code has it. In every record that \<^verbatim>\<open>getStockMetrics\<close> returns no field is
  \<^verbatim>\<open>null\<close> or absent, whatever the reply omitted or nulled: in a record it has just built,
  and so in a record it serves from a cache that holds such records only, as the cache
  does after every call. In a record built from a parsed reply, each of the eight numeric
  fields is a finite placeholder when the parsed value is falsy and \<^verbatim>\<open>Number\<close> of the parsed
  value when it is truthy (which can be \<^verbatim>\<open>NaN\<close> or infinite). \<^verbatim>\<open>stockName\<close> is the
  reply's \<^verbatim>\<open>stockName\<close> when truthy, else its \<^verbatim>\<open>name\<close> when truthy, else the input symbol;
  \<^verbatim>\<open>symbol\<close> is the reply's \<^verbatim>\<open>symbol\<close> when truthy, else the input symbol. So each of the
  two is a string exactly when the value so selected is one, and every field is a number
  or a string exactly when both selected values are: a truthy boolean, array or object is
  passed through as it is.
\<close>

theorem returned_fields_present:
  assumes cache: "cache_present w"
    and returned: "fst (getStockMetrics S e w) = Inr m"
  shows "list_all present (record_fields m)
       \<and> cache_present (snd (getStockMetrics S e w))
       \<and> (\<forall>parsed. lookup w S (now_lookup e) = None \<longrightarrow>
             parse_reply (reply_text (reply e)) = Some parsed \<longrightarrow>
               stockName m =
                 (if truthy (get_prop parsed ''stockName'') then get_prop parsed ''stockName''
                  else if truthy (get_prop parsed ''name'') then get_prop parsed ''name''
                  else Some (JStr S))
             \<and> symbol m =
                 (if truthy (get_prop parsed ''symbol'') then get_prop parsed ''symbol''
                  else Some (JStr S))
             \<and> (is_string (stockName m) \<longleftrightarrow>
                  (if truthy (get_prop parsed ''stockName'')
                   then is_string (get_prop parsed ''stockName'')
                   else if truthy (get_prop parsed ''name'')
                   then is_string (get_prop parsed ''name'') else True))
             \<and> (is_string (symbol m) \<longleftrightarrow>
                  (if truthy (get_prop parsed ''symbol'')
                   then is_string (get_prop parsed ''symbol'') else True))
             \<and> (list_all number_or_string (record_fields m) \<longleftrightarrow>
                  (if truthy (get_prop parsed ''stockName'')
                   then number_or_string (get_prop parsed ''stockName'')
                   else if truthy (get_prop parsed ''name'')
                   then number_or_string (get_prop parsed ''name'') else True)
                  \<and> (if truthy (get_prop parsed ''symbol'')
                     then number_or_string (get_prop parsed ''symbol'') else True))
             \<and> (\<forall>(name, field, lo, hi) \<in> set documented_ranges.
                  if truthy (get_prop parsed name)
                  then Number (get_prop parsed name) = Some (field m)
                  else is_finite (field m)))"
proof (intro conjI allI impI)
  show p: "list_all present (record_fields m)"
  proof (cases "lookup w S (now_lookup e)")
    case None
    from getStockMetrics_success [OF None returned] show ?thesis
      by (auto dest: normalize_present)
  next
    case (Some d)
    from getStockMetrics_hit [OF Some] returned have "d = m" by simp
    with lookup_Some [OF Some] cache show ?thesis
      by (auto simp: cache_present_def)
  qed
  from getStockMetrics_cache [of S e w] returned
  have "stockCache (snd (getStockMetrics S e w)) = stockCache w
      \<or> stockCache (snd (getStockMetrics S e w))
          = (stockCache w)(S \<mapsto> \<lparr>data = m, timestamp = now_store e\<rparr>)"
    by auto
  with cache p show "cache_present (snd (getStockMetrics S e w))"
    by (auto simp: cache_present_def split: if_splits)
next
  fix parsed
  assume miss: "lookup w S (now_lookup e) = None"
    and parsed: "parse_reply (reply_text (reply e)) = Some parsed"
  from getStockMetrics_success [OF miss returned] parsed
  have n: "normalize parsed S (random e) = Some m" by auto
  then have name: "stockName m = or_else (get_prop parsed ''stockName'')
                  (or_else (get_prop parsed ''name'') (Some (JStr S)))"
    and sym: "symbol m = or_else (get_prop parsed ''symbol'') (Some (JStr S))"
    by (auto elim: normalize_Some)
  from name show name': "stockName m =
                 (if truthy (get_prop parsed ''stockName'') then get_prop parsed ''stockName''
                  else if truthy (get_prop parsed ''name'') then get_prop parsed ''name''
                  else Some (JStr S))"
    by (simp add: or_else_def)
  from sym show sym': "symbol m =
                 (if truthy (get_prop parsed ''symbol'') then get_prop parsed ''symbol''
                  else Some (JStr S))"
    by (simp add: or_else_def)
  from name' show "is_string (stockName m) \<longleftrightarrow>
                  (if truthy (get_prop parsed ''stockName'')
                   then is_string (get_prop parsed ''stockName'')
                   else if truthy (get_prop parsed ''name'')
                   then is_string (get_prop parsed ''name'') else True)"
    by simp
  from sym' show "is_string (symbol m) \<longleftrightarrow>
                  (if truthy (get_prop parsed ''symbol'')
                   then is_string (get_prop parsed ''symbol'') else True)"
    by simp
  have "list_all number_or_string (record_fields m) \<longleftrightarrow>
          number_or_string (stockName m) \<and> number_or_string (symbol m)"
    by (simp add: record_fields_def documented_ranges_def)
  with name' sym' show "list_all number_or_string (record_fields m) \<longleftrightarrow>
                  (if truthy (get_prop parsed ''stockName'')
                   then number_or_string (get_prop parsed ''stockName'')
                   else if truthy (get_prop parsed ''name'')
                   then number_or_string (get_prop parsed ''name'') else True)
                  \<and> (if truthy (get_prop parsed ''symbol'')
                     then number_or_string (get_prop parsed ''symbol'') else True)"
    by simp
  from n show "\<forall>(name, field, lo, hi) \<in> set documented_ranges.
                  if truthy (get_prop parsed name)
                  then Number (get_prop parsed name) = Some (field m)
                  else is_finite (field m)"
    by (rule normalize_placeholder_finite)
qed

theorem returned_fields_present_witness:
  \<open>cache_present \<lparr>stockCache = Map.empty, calls = []\<rparr>
   \<and> cache_present sample_world
   \<and> lookup sample_world ''ACME'' (now_lookup (sample_env ''{"stockName":false}'')) = None
   \<and> parse_reply (reply_text (reply (sample_env ''{"stockName":false}'')))
       = Some (JObj [(''stockName'', JBool False)])
   \<and> stockName (projr (fst (getStockMetrics ''ACME'' (sample_env ''{"stockName":false}'')
         sample_world))) = Some (JStr ''ACME'')
   \<and> is_string (stockName (projr (fst (getStockMetrics ''ACME''
         (sample_env ''{"stockName":false}'') sample_world))))
   \<and> list_all number_or_string (record_fields (projr (fst (getStockMetrics ''ACME''
         (sample_env ''{"stockName":false}'') sample_world))))
   \<and> list_all present (record_fields (projr (fst (getStockMetrics ''ACME''
         (sample_env ''{"stockName":false}'') sample_world))))
   \<and> is_finite (dayHigh (projr (fst (getStockMetrics ''ACME''
         (sample_env ''{"stockName":false}'') sample_world))))
   \<and> cache_present (snd (getStockMetrics ''ACME'' (sample_env ''{"stockName":false}'')
         sample_world))\<close>
proof -
  let ?e = \<open>sample_env ''{"stockName":false}''\<close>
  let ?p = "JObj [(''stockName'', JBool False)]"
  let ?m = "\<lparr>stockName = Some (JStr ''ACME''), symbol = Some (JStr ''ACME''),
              currentPrice = Finite 100, dayHigh = Finite 110, dayLow = Finite 90,
              peRatio = Finite 25, roe = Finite 0.35, debtToEquity = Finite 0.7,
              profitMargins = Finite 0.35, revenueGrowth = Finite 0.2\<rparr>"
  have c: "cache_present sample_world"
    by (simp add: cache_present_def sample_world_def sample_metrics_def record_fields_def
        documented_ranges_def)
  have h1: "lookup sample_world ''ACME'' (now_lookup ?e) = None"
    by code_simp
  have h2: "parse_reply (reply_text (reply ?e)) = Some ?p"
    by code_simp
  have h3: "fst (getStockMetrics ''ACME'' ?e sample_world) = Inr ?m"
    by code_simp
  note inst = returned_fields_present [OF c h3]
  from inst have a: "list_all present (record_fields ?m)"
    and b: "cache_present (snd (getStockMetrics ''ACME'' ?e sample_world))"
    by blast+
  from inst h1 h2
  have "stockName ?m = Some (JStr ''ACME'') \<and> is_string (stockName ?m)
      \<and> list_all number_or_string (record_fields ?m) \<and> is_finite (dayHigh ?m)"
    by (simp add: documented_ranges_def)
  moreover have "cache_present \<lparr>stockCache = Map.empty, calls = []\<rparr>"
    by (simp add: cache_present_def)
  ultimately show ?thesis using c h1 h2 h3 a b by simp
qed

text \<open>
  Claim C7 as stated fails on the reply \<^verbatim>\<open>{"stockName":true}\<close>: the returned record's
  \<^verbatim>\<open>stockName\<close> is the boolean \<^verbatim>\<open>true\<close>, neither a number nor a string.
\<close>

theorem boolean_name_counterexample:
  \<open>fst (getStockMetrics ''ACME'' (sample_env ''{"stockName":true}'') sample_world)
     = Inr \<lparr>stockName = Some (JBool True), symbol = Some (JStr ''ACME''),
            currentPrice = Finite 100, dayHigh = Finite 110, dayLow = Finite 90,
            peRatio = Finite 25, roe = Finite 0.35, debtToEquity = Finite 0.7,
            profitMargins = Finite 0.35, revenueGrowth = Finite 0.2\<rparr>
   \<and> \<not> number_or_string (Some (JBool True))
   \<and> \<not> list_all number_or_string
         (record_fields (projr (fst (getStockMetrics ''ACME''
            (sample_env ''{"stockName":true}'') sample_world))))\<close>
  by code_simp

lemma retrieval_success:
  assumes "lookup w S (now_lookup e) = None"
    and "parse_reply (reply_text (reply e)) = Some parsed"
    and "reply e \<noteq> Rejected"
    and "trim (reply_text (reply e)) \<noteq> []"
    and "truthy (Some parsed) \<and> typeof parsed = ''object''"
  shows "(\<exists>m. fst (getStockMetrics S e w) = Inr m) \<longleftrightarrow> \<not> coercion_throws parsed"
proof -
  have blank: "trim [] = []" by (simp add: trim_def)
  from assms show ?thesis
    by (auto simp: getStockMetrics_def try_block_def Let_def blank normalize_None_iff
        split: option.splits dest: normalize_Some_no_throw)
qed

text \<open>
  Claim C9, as the code has it. For a parsed reply that is an object, the retrieval
  succeeds exactly when \<^verbatim>\<open>Number\<close> raises no \<^verbatim>\<open>TypeError\<close> on a truthy numeric field; the
  returned record then holds \<^verbatim>\<open>Number\<close> of the parsed value for every truthy numeric
  field, never a placeholder: \<^verbatim>\<open>NaN\<close> when that is what \<^verbatim>\<open>Number\<close> gives, as for the
  string \<^verbatim>\<open>N/A\<close>.
\<close>

theorem truthy_field_is_coerced:
  assumes miss: "lookup w S (now_lookup e) = None"
    and parsed: "parse_reply (reply_text (reply e)) = Some parsed"
    and answered: "reply e \<noteq> Rejected"
    and not_blank: "trim (reply_text (reply e)) \<noteq> []"
    and object: "truthy (Some parsed) \<and> typeof parsed = ''object''"
  shows "((\<exists>m. fst (getStockMetrics S e w) = Inr m) \<longleftrightarrow> \<not> coercion_throws parsed)
       \<and> (\<forall>(name, field, lo, hi) \<in> set documented_ranges. \<forall>m.
            fst (getStockMetrics S e w) = Inr m \<longrightarrow> truthy (get_prop parsed name) \<longrightarrow>
              Number (get_prop parsed name) = Some (field m)
              \<and> (Number (get_prop parsed name) = Some NaN \<longrightarrow> field m = NaN))"
proof (intro conjI)
  from retrieval_success [OF miss parsed answered not_blank object]
  show "(\<exists>m. fst (getStockMetrics S e w) = Inr m) \<longleftrightarrow> \<not> coercion_throws parsed" .
  show "\<forall>(name, field, lo, hi) \<in> set documented_ranges. \<forall>m.
            fst (getStockMetrics S e w) = Inr m \<longrightarrow> truthy (get_prop parsed name) \<longrightarrow>
              Number (get_prop parsed name) = Some (field m)
              \<and> (Number (get_prop parsed name) = Some NaN \<longrightarrow> field m = NaN)"
  proof (intro ballI, clarify)
    fix name field lo hi m
    assume row: "(name, field, lo, hi) \<in> set documented_ranges"
      and returned: "fst (getStockMetrics S e w) = Inr m"
      and truthy: "truthy (get_prop parsed name)"
    from getStockMetrics_success [OF miss returned] parsed
    have "normalize parsed S (random e) = Some m" by auto
    from bspec [OF normalize_coerced [OF this] row] truthy
    show "Number (get_prop parsed name) = Some (field m)
        \<and> (Number (get_prop parsed name) = Some NaN \<longrightarrow> field m = NaN)"
      by auto
  qed
qed

theorem truthy_field_is_coerced_witness:
  \<open>lookup sample_world ''ACME'' (now_lookup (sample_env ''{"currentPrice":"N/A"}'')) = None
   \<and> parse_reply (reply_text (reply (sample_env ''{"currentPrice":"N/A"}'')))
       = Some (JObj [(''currentPrice'', JStr ''N/A'')])
   \<and> Number (Some (JStr ''N/A'')) = Some NaN
   \<and> currentPrice (projr (fst (getStockMetrics ''ACME''
         (sample_env ''{"currentPrice":"N/A"}'') sample_world))) = NaN\<close>
proof -
  let ?e = \<open>sample_env ''{"currentPrice":"N/A"}''\<close>
  let ?p = "JObj [(''currentPrice'', JStr ''N/A'')]"
  let ?m = "\<lparr>stockName = Some (JStr ''ACME''), symbol = Some (JStr ''ACME''),
              currentPrice = NaN, dayHigh = Finite 110, dayLow = Finite 90,
              peRatio = Finite 25, roe = Finite 0.35, debtToEquity = Finite 0.7,
              profitMargins = Finite 0.35, revenueGrowth = Finite 0.2\<rparr>"
  have h1: "lookup sample_world ''ACME'' (now_lookup ?e) = None"
    by code_simp
  have h2: "parse_reply (reply_text (reply ?e)) = Some ?p"
    by code_simp
  have h3: "reply ?e \<noteq> Rejected"
    by (simp add: sample_env_def)
  have h4: "trim (reply_text (reply ?e)) \<noteq> []"
    by code_simp
  have h5: "truthy (Some ?p) \<and> typeof ?p = ''object''"
    by simp
  have h6: "fst (getStockMetrics ''ACME'' ?e sample_world) = Inr ?m"
    by code_simp
  have n: "Number (Some (JStr ''N/A'')) = Some NaN"
    by code_simp
  from truthy_field_is_coerced [OF h1 h2 h3 h4 h5] h6 n
  have "currentPrice ?m = NaN"
    by (simp add: documented_ranges_def)
  with h1 h2 h6 n show ?thesis by simp
qed

text \<open>
  Claim C9 as stated fails on the reply \<^verbatim>\<open>{"peRatio":{"toString":"N/A"}}\<close>: the field is
  present and truthy and is no number, but the retrieval does not return \<^verbatim>\<open>NaN\<close> for
  it: \<^verbatim>\<open>Number\<close> raises a \<^verbatim>\<open>TypeError\<close> and the retrieval fails.
\<close>

theorem uncoercible_object_counterexample:
  \<open>parse_reply ''{"peRatio":{"toString":"N/A"}}''
     = Some (JObj [(''peRatio'', JObj [(''toString'', JStr ''N/A'')])])
   \<and> get_prop (JObj [(''peRatio'', JObj [(''toString'', JStr ''N/A'')])]) ''peRatio''
     = Some (JObj [(''toString'', JStr ''N/A'')])
   \<and> truthy (Some (JObj [(''toString'', JStr ''N/A'')]))
   \<and> Number (Some (JObj [(''toString'', JStr ''N/A'')])) = None
   \<and> fst (getStockMetrics ''ACME'' (sample_env ''{"peRatio":{"toString":"N/A"}}'')
         sample_world) = Inl (Error (failed_message ''ACME''))\<close>
  by code_simp

subsection \<open>The keys of the cache\<close>







end
